theory Spec2Isabelle
  imports Main
begin

section \<open>Persisted rows\<close>

text \<open>
  The relational tables that \<^verbatim>\<open>server/routes/bookings.js\<close> reads and writes, one record
  per table, with the columns the statements of the handlers name. Keys and counts are
  integers, text columns are strings, and a nullable column is an \<open>option\<close>
  (\<open>None\<close> is SQL NULL). A table is the list of its rows in storage order.
\<close>

record restaurant =
  r_id :: int
  r_name :: string
  r_address :: string
  r_is_active :: int

record restaurant_table =
  rt_id :: int
  rt_restaurant_id :: int
  rt_table_number :: int
  rt_capacity :: int
  rt_status :: string

record booking =
  b_id :: int
  b_user_id :: int
  b_restaurant_id :: int
  b_table_id :: int
  b_date :: string
  b_time :: string
  b_guests :: int
  b_special_requests :: "string option"
  b_status :: string
  b_updated_at :: "int option"

record order_row =
  o_id :: int
  o_order_type :: string
  o_status :: string
  o_total_amount :: int

record notification =
  n_id :: int
  n_user_id :: int
  n_title :: string
  n_message :: string
  n_type :: string
  n_is_read :: int
  n_created_at :: int
  n_restaurant_id :: "int option"
  n_booking_id :: "int option"
  n_order_id :: "int option"

record database =
  restaurants :: "restaurant list"
  restaurant_tables :: "restaurant_table list"
  bookings :: "booking list"
  orders :: "order_row list"
  notifications :: "notification list"

text \<open>
  What a handler sends: \<^verbatim>\<open>res.status(s).json({success, message, data})\<close>. The key
  \<^verbatim>\<open>errors\<close> is present only in the answer to a request that fails validation.
  Every handler wraps its body in \<^verbatim>\<open>try\<close> and answers 500 from \<^verbatim>\<open>catch\<close>; the
  statements of a handler throw only when the store fails. The store is a value here and
  answers every statement but one: the list query of the notifications binds a limit
  that has no lower bound, and the store may reject it. That handler has its 500 branch;
  the others have none.
\<close>

record 'a response =
  status :: nat
  success :: bool
  message :: string
  data :: "'a option"
  errors :: "string list option"

definition reply :: "nat \<Rightarrow> bool \<Rightarrow> string \<Rightarrow> 'a option \<Rightarrow> 'a response" where
  "reply s ok msg d = \<lparr>status = s, success = ok, message = msg, data = d, errors = None\<rparr>"

section \<open>The limit of a notification query\<close>

text \<open>
  \<^verbatim>\<open>parseInt(string)\<close> with no radix, as ECMAScript defines it: leading white space is
  skipped, one sign is read, the prefix \<^verbatim>\<open>0x\<close> or \<^verbatim>\<open>0X\<close> selects radix 16, and the
  longest run of digits of the radix is the value; with no digit the result is NaN, here
  \<open>None\<close>. A character is a code unit below 256. The result is a number, that is a
  double: the integer read from the digits, rounded to the nearest double with ties to
  the even significand (\<open>toDouble\<close>). Beyond the largest double the builtin gives an
  infinity, for which the rounded integer stands here: \<^verbatim>\<open>Math.min\<close> maps both to 100
  on the positive side, and both lie below every bound on the negative side.
\<close>

definition isWhiteSpace :: "char \<Rightarrow> bool" where
  "isWhiteSpace c = (of_char c \<in> {9, 10, 11, 12, 13, 32, 160 :: nat})"

definition digitValue :: "char \<Rightarrow> nat option" where
  "digitValue c =
     (let k = (of_char c :: nat) in
      if 48 \<le> k \<and> k \<le> 57 then Some (k - 48)
      else if 97 \<le> k \<and> k \<le> 122 then Some (k - 87)
      else if 65 \<le> k \<and> k \<le> 90 then Some (k - 55)
      else None)"

definition isRadixDigit :: "nat \<Rightarrow> char \<Rightarrow> bool" where
  "isRadixDigit R c = (case digitValue c of None \<Rightarrow> False | Some d \<Rightarrow> d < R)"

fun mathInt :: "int \<Rightarrow> int \<Rightarrow> string \<Rightarrow> int" where
  "mathInt R acc [] = acc"
| "mathInt R acc (c # cs) =
     mathInt R (acc * R + (case digitValue c of None \<Rightarrow> 0 | Some d \<Rightarrow> int d)) cs"

function bitLength :: "int \<Rightarrow> nat" where
  "bitLength n = (if n \<le> 0 then 0 else Suc (bitLength (n div 2)))"
  by pat_completeness auto
termination
  by (relation "measure nat") auto

declare bitLength.simps [simp del]

definition toDouble :: "int \<Rightarrow> int" where
  "toDouble n =
     (if n < 2 ^ 53 then n
      else
        let e = bitLength n - 53;
            q = n div 2 ^ e;
            r = n mod 2 ^ e;
            half = 2 ^ (e - 1);
            q' = (if half < r \<or> (r = half \<and> odd q) then q + 1 else q)
        in q' * 2 ^ e)"

definition parseInt :: "string \<Rightarrow> int option" where
  "parseInt inputString =
     (let S = dropWhile isWhiteSpace inputString;
          sign = (if S \<noteq> [] \<and> hd S = CHR ''-'' then - 1 else 1 :: int);
          S1 = (if S \<noteq> [] \<and> (hd S = CHR ''+'' \<or> hd S = CHR ''-'') then tl S else S);
          hex = (take 2 S1 = ''0x'' \<or> take 2 S1 = ''0X'');
          R = (if hex then 16 else 10 :: nat);
          S2 = (if hex then drop 2 S1 else S1);
          Z = takeWhile (isRadixDigit R) S2
      in if Z = [] then None else Some (sign * toDouble (mathInt (int R) 0 Z)))"

text \<open>
  \<^verbatim>\<open>const { limit = 50, unread_only } = req.query;\<close>
  \<^verbatim>\<open>const limitInt = Math.min(parseInt(limit) || 50, 100);\<close>
  The query parameter is absent (\<open>None\<close>, the default 50 applies) or a string. NaN and
  zero are falsy, so \<^verbatim>\<open>||\<close> replaces both with 50.
\<close>

definition limitInt :: "string option \<Rightarrow> int" where
  "limitInt limit =
     (let parsed = (case limit of None \<Rightarrow> Some 50 | Some s \<Rightarrow> parseInt s);
          v = (case parsed of None \<Rightarrow> 50 | Some k \<Rightarrow> if k = 0 then 50 else k)
      in min v 100)"

section \<open>Reading notifications\<close>

text \<open>
  \<^verbatim>\<open>A LEFT JOIN B ON c\<close>: every row of \<open>A\<close> with each row of \<open>B\<close> that satisfies
  the condition, and once with NULL columns when no row of \<open>B\<close> does.
\<close>

definition left_join :: "'a list \<Rightarrow> 'b list \<Rightarrow> ('a \<Rightarrow> 'b \<Rightarrow> bool) \<Rightarrow> ('a \<times> 'b option) list" where
  "left_join xs ys on =
     concat (map (\<lambda>x. case filter (on x) ys of
                          [] \<Rightarrow> [(x, None)]
                        | ms \<Rightarrow> map (\<lambda>y. (x, Some y)) ms) xs)"

type_synonym joined =
  "(((notification \<times> restaurant option) \<times> booking option) \<times> restaurant_table option)
     \<times> order_row option"

definition jn :: "joined \<Rightarrow> notification" where
  "jn t = fst (fst (fst (fst t)))"

definition jr :: "joined \<Rightarrow> restaurant option" where
  "jr t = snd (fst (fst (fst t)))"

definition jb :: "joined \<Rightarrow> booking option" where
  "jb t = snd (fst (fst t))"

definition jrt :: "joined \<Rightarrow> restaurant_table option" where
  "jrt t = snd (fst t)"

definition jo :: "joined \<Rightarrow> order_row option" where
  "jo t = snd t"

text \<open>
  The FROM clause of the consolidated query:
  \<^verbatim>\<open>FROM notifications n LEFT JOIN restaurants r ON n.restaurant_id = r.id\<close>
  \<^verbatim>\<open>LEFT JOIN bookings b ON n.booking_id = b.id\<close>
  \<^verbatim>\<open>LEFT JOIN restaurant_tables rt ON b.table_id = rt.id\<close>
  \<^verbatim>\<open>LEFT JOIN orders o ON n.order_id = o.id\<close>.
  A comparison with NULL is not true, so a NULL key joins nothing.
\<close>

definition from_clause :: "database \<Rightarrow> joined list" where
  "from_clause db =
     left_join
       (left_join
          (left_join
             (left_join (notifications db) (restaurants db)
                (\<lambda>n r. n_restaurant_id n = Some (r_id r)))
             (bookings db)
             (\<lambda>nr b. n_booking_id (fst nr) = Some (b_id b)))
          (restaurant_tables db)
          (\<lambda>nrb rt. case snd nrb of None \<Rightarrow> False | Some b \<Rightarrow> b_table_id b = rt_id rt))
       (orders db)
       (\<lambda>t ord. n_order_id (fst (fst (fst t))) = Some (o_id ord))"

text \<open>
  The module of the store (\<^verbatim>\<open>../config/database\<close>) is not part of the sources read
  here. Two things the list query leaves to it are parameters: which values it takes for
  the parameter of \<^verbatim>\<open>LIMIT ?\<close> (a value it does not take makes \<^verbatim>\<open>db.all\<close> throw), and
  in which order it returns rows of equal \<^verbatim>\<open>created_at\<close>, for which
  \<^verbatim>\<open>ORDER BY n.created_at DESC\<close> names no second key; a rank on the rows stands for
  that order.
\<close>

record gateway =
  accepts_limit :: "int \<Rightarrow> bool"
  tie_rank :: "joined \<Rightarrow> int"

text \<open>
  \<^verbatim>\<open>ORDER BY n.created_at DESC\<close>: newest first, rows of equal time by the rank of the
  store (two stable sorts, the minor key first).
\<close>

definition order_by_created_at_desc :: "gateway \<Rightarrow> joined list \<Rightarrow> joined list" where
  "order_by_created_at_desc gw ts =
     sort_key (\<lambda>t. - n_created_at (jn t)) (sort_key (tie_rank gw) ts)"

text \<open>
  \<^verbatim>\<open>LIMIT ?\<close>: \<open>None\<close> when the store rejects the value; otherwise at most that many
  rows, and all rows under a negative limit that the store takes.
\<close>

definition sql_limit :: "gateway \<Rightarrow> int \<Rightarrow> 'a list \<Rightarrow> 'a list option" where
  "sql_limit gw k rows =
     (if \<not> accepts_limit gw k then None
      else if k < 0 then Some rows
      else Some (take (nat k) rows))"

text \<open>
  The rows the list query selects: \<^verbatim>\<open>WHERE n.user_id = ?\<close>, with
  \<^verbatim>\<open>AND n.is_read = 0\<close> appended when \<^verbatim>\<open>unread_only === 'true'\<close>.
\<close>

definition notificationQuery ::
  "gateway \<Rightarrow> database \<Rightarrow> int \<Rightarrow> string option \<Rightarrow> int \<Rightarrow> joined list option" where
  "notificationQuery gw db userId unread_only lim =
     sql_limit gw lim
       (order_by_created_at_desc gw
          (filter (\<lambda>t. n_user_id (jn t) = userId \<and>
                        (if unread_only = Some ''true'' then n_is_read (jn t) = 0 else True))
             (from_clause db)))"

text \<open>The columns of the SELECT list; a column of a table that did not join is NULL.\<close>

record notification_row =
  row_id :: int
  row_title :: string
  row_message :: string
  row_type :: string
  row_is_read :: int
  row_created_at :: int
  row_restaurant_name :: "string option"
  row_restaurant_address :: "string option"
  row_booking_id :: "int option"
  row_booking_date :: "string option"
  row_booking_time :: "string option"
  row_table_number :: "int option"
  row_order_id :: "int option"
  row_order_type :: "string option"
  row_order_status :: "string option"
  row_order_total :: "int option"

definition select_columns :: "joined \<Rightarrow> notification_row" where
  "select_columns t =
     \<lparr>row_id = n_id (jn t), row_title = n_title (jn t), row_message = n_message (jn t),
      row_type = n_type (jn t), row_is_read = n_is_read (jn t),
      row_created_at = n_created_at (jn t),
      row_restaurant_name = map_option r_name (jr t),
      row_restaurant_address = map_option r_address (jr t),
      row_booking_id = map_option b_id (jb t),
      row_booking_date = map_option b_date (jb t),
      row_booking_time = map_option b_time (jb t),
      row_table_number = map_option rt_table_number (jrt t),
      row_order_id = map_option o_id (jo t),
      row_order_type = map_option o_order_type (jo t),
      row_order_status = map_option o_status (jo t),
      row_order_total = map_option o_total_amount (jo t)\<rparr>"

text \<open>
  The enriched notification of the response. The keys \<^verbatim>\<open>booking_details\<close> and
  \<^verbatim>\<open>order_details\<close> are set only under \<^verbatim>\<open>if (notification.booking_id)\<close> and
  \<^verbatim>\<open>if (notification.order_id)\<close>; an absent key is \<open>None\<close>.
\<close>

record booking_details =
  bd_booking_id :: int
  bd_date :: "string option"
  bd_time :: "string option"
  bd_table_number :: "int option"

record order_details =
  od_order_id :: int
  od_order_type :: "string option"
  od_status :: "string option"
  od_total_amount :: "int option"

record enriched =
  e_id :: int
  e_title :: string
  e_message :: string
  e_type :: string
  e_is_read :: int
  e_created_at :: int
  e_restaurant_name :: "string option"
  e_restaurant_address :: "string option"
  e_booking_details :: "booking_details option"
  e_order_details :: "order_details option"

text \<open>\<^verbatim>\<open>x || null\<close> on a nullable text column: NULL and the empty string are falsy.\<close>

definition or_null :: "string option \<Rightarrow> string option" where
  "or_null x = (case x of None \<Rightarrow> None | Some s \<Rightarrow> if s = [] then None else Some s)"

text \<open>The truth value of a nullable integer column: NULL and 0 are falsy.\<close>

definition truthy :: "int option \<Rightarrow> bool" where
  "truthy x = (case x of None \<Rightarrow> False | Some k \<Rightarrow> k \<noteq> 0)"

definition enrich :: "notification_row \<Rightarrow> enriched" where
  "enrich notification =
     \<lparr>e_id = row_id notification,
      e_title = row_title notification,
      e_message = row_message notification,
      e_type = row_type notification,
      e_is_read = row_is_read notification,
      e_created_at = row_created_at notification,
      e_restaurant_name = or_null (row_restaurant_name notification),
      e_restaurant_address = or_null (row_restaurant_address notification),
      e_booking_details =
        (if truthy (row_booking_id notification)
         then Some \<lparr>bd_booking_id = the (row_booking_id notification),
                     bd_date = row_booking_date notification,
                     bd_time = row_booking_time notification,
                     bd_table_number = row_table_number notification\<rparr>
         else None),
      e_order_details =
        (if truthy (row_order_id notification)
         then Some \<lparr>od_order_id = the (row_order_id notification),
                     od_order_type = row_order_type notification,
                     od_status = row_order_status notification,
                     od_total_amount = row_order_total notification\<rparr>
         else None)\<rparr>"

text \<open>
  \<^verbatim>\<open>SELECT COUNT(*) as count FROM notifications WHERE user_id = ? AND is_read = 0\<close> and
  \<^verbatim>\<open>SELECT COUNT(*) as count FROM notifications WHERE user_id = ?\<close>.
\<close>

definition unreadCountQuery :: "database \<Rightarrow> int \<Rightarrow> int" where
  "unreadCountQuery db userId =
     int (length (filter (\<lambda>n. n_user_id n = userId \<and> n_is_read n = 0) (notifications db)))"

definition totalCountQuery :: "database \<Rightarrow> int \<Rightarrow> int" where
  "totalCountQuery db userId =
     int (length (filter (\<lambda>n. n_user_id n = userId) (notifications db)))"

text \<open>\<^verbatim>\<open>count || 0\<close> on a number.\<close>

definition or_zero :: "int \<Rightarrow> int" where
  "or_zero c = (if c = 0 then 0 else c)"

record notifications_data =
  data_notifications :: "enriched list"
  unread_count :: int
  total_count :: int

text \<open>
  \<^verbatim>\<open>router.get('/notifications', ...)\<close>. The three statements of \<^verbatim>\<open>Promise.all\<close> read
  the same state of the store. When the store rejects the limit, \<^verbatim>\<open>db.all\<close> throws,
  \<^verbatim>\<open>Promise.all\<close> rejects and the \<^verbatim>\<open>catch\<close> branch answers 500.
\<close>

definition getNotifications ::
  "gateway \<Rightarrow> database \<Rightarrow> int \<Rightarrow> string option \<Rightarrow> string option
     \<Rightarrow> notifications_data response" where
  "getNotifications gw db userId limit unread_only =
     (case notificationQuery gw db userId unread_only (limitInt limit) of
        None \<Rightarrow>
          reply 500 False ''Internal server error while fetching notifications'' None
      | Some rows \<Rightarrow>
          let notifications = map select_columns rows;
              unreadCount = or_zero (unreadCountQuery db userId);
              totalCount = or_zero (totalCountQuery db userId);
              enrichedNotifications = map enrich notifications
          in reply 200 True ''Notifications retrieved successfully''
               (Some \<lparr>data_notifications = enrichedNotifications,
                       unread_count = unreadCount,
                       total_count = totalCount\<rparr>))"

text \<open>\<^verbatim>\<open>router.get('/notifications/unread-count', ...)\<close>, the legacy endpoint.\<close>

record count_data =
  count :: int

definition getUnreadCount :: "database \<Rightarrow> int \<Rightarrow> count_data response" where
  "getUnreadCount db userId =
     (let result =
            int (length (filter (\<lambda>n. n_user_id n = userId \<and> n_is_read n = 0)
                           (notifications db)))
      in reply 200 True ''Unread notification count retrieved''
           (Some \<lparr>count = or_zero result\<rparr>))"

section \<open>Marking notifications read\<close>

text \<open>
  \<^verbatim>\<open>router.put('/notifications/mark-all-read', ...)\<close>:
  \<^verbatim>\<open>UPDATE notifications SET is_read = 1 WHERE user_id = ? AND is_read = 0\<close>.
\<close>

definition markAllRead :: "database \<Rightarrow> int \<Rightarrow> database \<times> unit response" where
  "markAllRead db userId =
     (db\<lparr>notifications :=
           map (\<lambda>n. if n_user_id n = userId \<and> n_is_read n = 0 then n\<lparr>n_is_read := 1\<rparr> else n)
             (notifications db)\<rparr>,
      reply 200 True ''All notifications marked as read'' None)"

text \<open>
  \<^verbatim>\<open>router.put('/notifications/:id/read', ...)\<close>. The path parameter is compared with
  the integer key, so it is an integer here. The row is looked up by id and user; the
  update is \<^verbatim>\<open>UPDATE notifications SET is_read = 1 WHERE id = ?\<close>.
\<close>

definition markRead :: "database \<Rightarrow> int \<Rightarrow> int \<Rightarrow> database \<times> unit response" where
  "markRead db ident userId =
     (case find (\<lambda>n. n_id n = ident \<and> n_user_id n = userId) (notifications db) of
        None \<Rightarrow> (db, reply 404 False ''Notification not found'' None)
      | Some notification \<Rightarrow>
          (db\<lparr>notifications :=
                map (\<lambda>n. if n_id n = ident then n\<lparr>n_is_read := 1\<rparr> else n) (notifications db)\<rparr>,
           reply 200 True ''Notification marked as read'' None))"

section \<open>Creating and cancelling bookings\<close>

record booking_request =
  restaurantId :: int
  tableId :: int
  date :: string
  time :: string
  guests :: int
  specialRequests :: "string option"

definition isDigit :: "char \<Rightarrow> bool" where
  "isDigit c = (48 \<le> (of_char c :: nat) \<and> (of_char c :: nat) \<le> 57)"

definition charIn :: "char \<Rightarrow> char \<Rightarrow> char \<Rightarrow> bool" where
  "charIn lo hi c = ((of_char lo :: nat) \<le> of_char c \<and> (of_char c :: nat) \<le> of_char hi)"

text \<open>The pattern \<^verbatim>\<open>/^([0-1]?[0-9]|2[0-3]):[0-5][0-9]$/\<close> of the time validator.\<close>

fun timeMatches :: "string \<Rightarrow> bool" where
  "timeMatches [h, c, m1, m2] =
     (isDigit h \<and> c = CHR '':'' \<and> charIn CHR ''0'' CHR ''5'' m1 \<and> isDigit m2)"
| "timeMatches [h1, h2, c, m1, m2] =
     (((charIn CHR ''0'' CHR ''1'' h1 \<and> isDigit h2) \<or>
       (h1 = CHR ''2'' \<and> charIn CHR ''0'' CHR ''3'' h2)) \<and>
      c = CHR '':'' \<and> charIn CHR ''0'' CHR ''5'' m1 \<and> isDigit m2)"
| "timeMatches _ = False"

text \<open>
  \<^verbatim>\<open>bookingValidation\<close>: the messages of the validators that fail, in their order. The
  date check \<^verbatim>\<open>isISO8601\<close> belongs to the validation library and is a parameter. The
  identifiers and the guest count are integers here, so \<^verbatim>\<open>isInt\<close> checks their range.
\<close>

definition bookingValidation :: "(string \<Rightarrow> bool) \<Rightarrow> booking_request \<Rightarrow> string list" where
  "bookingValidation isISO8601 body =
     (if 1 \<le> restaurantId body then [] else [''Valid restaurant ID is required'']) @
     (if 1 \<le> tableId body then [] else [''Valid table ID is required'']) @
     (if isISO8601 (date body) then [] else [''Valid date is required'']) @
     (if timeMatches (time body) then [] else [''Valid time format (HH:MM) is required'']) @
     (if 1 \<le> guests body \<and> guests body \<le> 20 then []
      else [''Number of guests must be between 1 and 20'']) @
     (case specialRequests body of
        None \<Rightarrow> []
      | Some sr \<Rightarrow> if length sr \<le> 500 then []
                  else [''Special requests must be less than 500 characters''])"

text \<open>A number in a template string.\<close>

fun showNat :: "nat \<Rightarrow> string" where
  "showNat n =
     (if n < 10 then [char_of (48 + n)] else showNat (n div 10) @ [char_of (48 + n mod 10)])"

declare showNat.simps [simp del]

definition showInt :: "int \<Rightarrow> string" where
  "showInt k = (if k < 0 then CHR ''-'' # showNat (nat (- k)) else showNat (nat k))"

record booking_data =
  bookingId :: int
  restaurantName :: string
  tableNumber :: int
  data_date :: string
  data_time :: string
  data_guests :: int
  data_status :: string

text \<open>
  \<^verbatim>\<open>router.post('/', ...)\<close>. The store assigns the key of the inserted row
  (\<^verbatim>\<open>result.id\<close>); it is the parameter \<open>newId\<close>. The INSERT does not name
  \<^verbatim>\<open>updated_at\<close>, which is NULL in the new row here. The two writes are
  \<^verbatim>\<open>INSERT INTO bookings ... 'confirmed'\<close> and
  \<^verbatim>\<open>UPDATE restaurant_tables SET status = "reserved" WHERE id = ?\<close>.
\<close>

definition createBooking ::
  "(string \<Rightarrow> bool) \<Rightarrow> database \<Rightarrow> int \<Rightarrow> int \<Rightarrow> booking_request
     \<Rightarrow> database \<times> booking_data response" where
  "createBooking isISO8601 db newId userId body =
     (let errs = bookingValidation isISO8601 body in
      if errs \<noteq> [] then
        (db, \<lparr>status = 400, success = False, message = ''Validation failed'',
              data = None, errors = Some errs\<rparr>)
      else
        case find (\<lambda>r. r_id r = restaurantId body \<and> r_is_active r = 1) (restaurants db) of
          None \<Rightarrow> (db, reply 404 False ''Restaurant not found'' None)
        | Some restaurant \<Rightarrow>
            (case find (\<lambda>t. rt_id t = tableId body \<and> rt_restaurant_id t = restaurantId body)
                    (restaurant_tables db) of
               None \<Rightarrow> (db, reply 404 False ''Table not found'' None)
             | Some table \<Rightarrow>
                 if guests body > rt_capacity table then
                   (db, reply 400 False
                          (''Table capacity is '' @ showInt (rt_capacity table) @
                           '', but you requested '' @ showInt (guests body) @ '' guests'')
                          None)
                 else if rt_status table \<noteq> ''available'' then
                   (db, reply 400 False ''Table is not available'' None)
                 else
                   (db\<lparr>bookings := bookings db @
                          [\<lparr>b_id = newId, b_user_id = userId,
                            b_restaurant_id = restaurantId body, b_table_id = tableId body,
                            b_date = date body, b_time = time body, b_guests = guests body,
                            b_special_requests = or_null (specialRequests body),
                            b_status = ''confirmed'', b_updated_at = None\<rparr>],
                       restaurant_tables :=
                          map (\<lambda>t. if rt_id t = tableId body
                                    then t\<lparr>rt_status := ''reserved''\<rparr> else t)
                            (restaurant_tables db)\<rparr>,
                    reply 201 True ''Booking created successfully''
                      (Some \<lparr>bookingId = newId,
                              restaurantName = r_name restaurant,
                              tableNumber = rt_table_number table,
                              data_date = date body,
                              data_time = time body,
                              data_guests = guests body,
                              data_status = ''confirmed''\<rparr>))))"

text \<open>
  \<^verbatim>\<open>router.put('/:id/cancel', ...)\<close>; \<open>now\<close> is the store's \<^verbatim>\<open>CURRENT_TIMESTAMP\<close>.
  The writes are \<^verbatim>\<open>UPDATE bookings SET status = "cancelled", updated_at = ... WHERE id = ?\<close>
  and \<^verbatim>\<open>UPDATE restaurant_tables SET status = "available" WHERE id = ?\<close>.
\<close>

definition cancelBooking :: "database \<Rightarrow> int \<Rightarrow> int \<Rightarrow> int \<Rightarrow> database \<times> unit response" where
  "cancelBooking db now ident userId =
     (case find (\<lambda>b. b_id b = ident \<and> b_user_id b = userId) (bookings db) of
        None \<Rightarrow> (db, reply 404 False ''Booking not found'' None)
      | Some booking \<Rightarrow>
          if b_status booking = ''cancelled'' then
            (db, reply 400 False ''Booking is already cancelled'' None)
          else
            (db\<lparr>bookings :=
                   map (\<lambda>b. if b_id b = ident
                             then b\<lparr>b_status := ''cancelled'', b_updated_at := Some now\<rparr> else b)
                     (bookings db),
                restaurant_tables :=
                   map (\<lambda>t. if rt_id t = b_table_id booking
                             then t\<lparr>rt_status := ''available''\<rparr> else t)
                     (restaurant_tables db)\<rparr>,
             reply 200 True ''Booking cancelled successfully'' None))"

section \<open>The notification panel of the client\<close>

text \<open>
  The state of \<^verbatim>\<open>NotificationBell\<close> in \<^verbatim>\<open>src/components/NotificationBell.jsx\<close>: the
  \<^verbatim>\<open>useState\<close> cells and the \<^verbatim>\<open>loadingNotificationsRef\<close> flag. The displayed
  notifications are the enriched records the server sent.
\<close>

record panel =
  notificationsState :: "enriched list"
  unreadCount :: int
  isOpen :: bool
  isLoading :: bool
  loadingNotificationsRef :: bool

text \<open>
  How the promise of \<^verbatim>\<open>apiCall\<close> settles at the \<^verbatim>\<open>await\<close>: it rejects, and
  control enters \<^verbatim>\<open>catch\<close>, or it resolves with a value.
\<close>

datatype 'a outcome = Rejected | Resolved 'a

record payload =
  p_notifications :: "enriched list option"
  p_unread_count :: "int option"

record api_response =
  resp_success :: bool
  resp_data :: "payload option"

text \<open>
  \<^verbatim>\<open>loadNotifications\<close>. The resolved value may be null (\<open>None\<close>). The request goes
  through \<^verbatim>\<open>apiCache.dedupe\<close>, whose promise is the outcome given here.
\<close>

definition loadNotifications :: "panel \<Rightarrow> api_response option outcome \<Rightarrow> panel" where
  "loadNotifications st out =
     (if loadingNotificationsRef st then st
      else
        let st1 = st\<lparr>loadingNotificationsRef := True, isLoading := True\<rparr>;
            cleared = st1\<lparr>notificationsState := [], unreadCount := 0\<rparr>;
            st2 = (case out of
                     Rejected \<Rightarrow> cleared
                   | Resolved None \<Rightarrow> cleared
                   | Resolved (Some response) \<Rightarrow>
                       (case resp_data response of
                          None \<Rightarrow> cleared
                        | Some d \<Rightarrow>
                            if resp_success response then
                              st1\<lparr>notificationsState :=
                                     (case p_notifications d of None \<Rightarrow> [] | Some l \<Rightarrow> l),
                                   unreadCount :=
                                     (case p_unread_count d of None \<Rightarrow> 0 | Some c \<Rightarrow> or_zero c)\<rparr>
                            else cleared))
        in st2\<lparr>isLoading := False, loadingNotificationsRef := False\<rparr>)"

text \<open>
  \<^verbatim>\<open>markAsRead\<close>: the snapshot, the optimistic update, the call; only a rejected call
  reaches the \<^verbatim>\<open>catch\<close> that restores the snapshot. The resolved value is not read.
\<close>

definition markAsRead :: "panel \<Rightarrow> int \<Rightarrow> 'a outcome \<Rightarrow> panel" where
  "markAsRead st notificationId out =
     (let previousUnreadCount = unreadCount st;
          previousNotifications = notificationsState st;
          st1 = st\<lparr>notificationsState :=
                      map (\<lambda>n. if e_id n = notificationId then n\<lparr>e_is_read := 1\<rparr> else n)
                        (notificationsState st),
                    unreadCount := max 0 (unreadCount st - 1)\<rparr>
      in case out of
           Resolved _ \<Rightarrow> st1
         | Rejected \<Rightarrow> st1\<lparr>notificationsState := previousNotifications,
                            unreadCount := previousUnreadCount\<rparr>)"

definition markAllAsRead :: "panel \<Rightarrow> 'a outcome \<Rightarrow> panel" where
  "markAllAsRead st out =
     (let previousUnreadCount = unreadCount st;
          previousNotifications = notificationsState st;
          st1 = st\<lparr>notificationsState := map (\<lambda>n. n\<lparr>e_is_read := 1\<rparr>) (notificationsState st),
                    unreadCount := 0\<rparr>
      in case out of
           Resolved _ \<Rightarrow> st1
         | Rejected \<Rightarrow> st1\<lparr>notificationsState := previousNotifications,
                            unreadCount := previousUnreadCount\<rparr>)"

text \<open>\<^verbatim>\<open>handleBellClick\<close>: toggles the dropdown and refreshes when it opens.\<close>

definition handleBellClick :: "panel \<Rightarrow> api_response option outcome \<Rightarrow> panel" where
  "handleBellClick st out =
     (let st1 = st\<lparr>isOpen := \<not> isOpen st\<rparr>
      in if \<not> isOpen st then loadNotifications st1 out else st1)"

section \<open>A small store and panel\<close>

text \<open>
  User 7 has three unread and two read notifications, some of which refer to rows that
  do not exist; user 8 has one. Restaurant 2 is inactive. Booking 1 is confirmed, booking
  2 is cancelled.
\<close>

definition notif :: "int \<Rightarrow> int \<Rightarrow> int \<Rightarrow> int \<Rightarrow> int option \<Rightarrow> int option \<Rightarrow> int option
                      \<Rightarrow> notification" where
  "notif k u rd at r b ord =
     \<lparr>n_id = k, n_user_id = u, n_title = ''Update'', n_message = ''Status changed'',
      n_type = ''info'', n_is_read = rd, n_created_at = at,
      n_restaurant_id = r, n_booking_id = b, n_order_id = ord\<rparr>"

definition sample_db :: database where
  "sample_db =
     \<lparr>restaurants =
        [\<lparr>r_id = 1, r_name = ''Luigi'', r_address = ''1 Main St'', r_is_active = 1\<rparr>,
         \<lparr>r_id = 2, r_name = ''Harbour'', r_address = ''2 Quay'', r_is_active = 0\<rparr>],
      restaurant_tables =
        [\<lparr>rt_id = 1, rt_restaurant_id = 1, rt_table_number = 4, rt_capacity = 4,
          rt_status = ''available''\<rparr>,
         \<lparr>rt_id = 2, rt_restaurant_id = 1, rt_table_number = 5, rt_capacity = 2,
          rt_status = ''reserved''\<rparr>,
         \<lparr>rt_id = 3, rt_restaurant_id = 2, rt_table_number = 1, rt_capacity = 2,
          rt_status = ''available''\<rparr>],
      bookings =
        [\<lparr>b_id = 1, b_user_id = 7, b_restaurant_id = 1, b_table_id = 2,
          b_date = ''2025-03-01'', b_time = ''19:30'', b_guests = 2,
          b_special_requests = None, b_status = ''confirmed'', b_updated_at = None\<rparr>,
         \<lparr>b_id = 2, b_user_id = 7, b_restaurant_id = 1, b_table_id = 1,
          b_date = ''2025-03-02'', b_time = ''20:00'', b_guests = 3,
          b_special_requests = None, b_status = ''cancelled'', b_updated_at = Some 10\<rparr>],
      orders =
        [\<lparr>o_id = 1, o_order_type = ''dine-in'', o_status = ''placed'', o_total_amount = 40\<rparr>],
      notifications =
        [notif 1 7 0 100 (Some 1) (Some 1) None,
         notif 2 7 0 101 (Some 9) (Some 99) None,
         notif 3 7 1 102 (Some 1) None (Some 1),
         notif 4 7 0 103 None None (Some 42),
         notif 5 7 1 104 None None None,
         notif 6 8 0 105 (Some 1) None None]\<rparr>"

text \<open>
  A store that takes for \<^verbatim>\<open>LIMIT ?\<close> the integers strictly inside the signed 64-bit
  range, and returns rows of equal time in the order of the join.
\<close>

definition takes_int64 :: "int \<Rightarrow> bool" where
  "takes_int64 k = (- (2 ^ 63) < k \<and> k < 2 ^ 63)"

definition storage_order :: "joined \<Rightarrow> int" where
  "storage_order t = 0"

definition sample_gateway :: gateway where
  "sample_gateway = \<lparr>accepts_limit = takes_int64, tie_rank = storage_order\<rparr>"


definition sample_request :: booking_request where
  "sample_request =
     \<lparr>restaurantId = 1, tableId = 1, date = ''2025-04-01'', time = ''18:45'', guests = 4,
      specialRequests = Some ''Window seat''\<rparr>"

text \<open>
  A stand-in for the library's date check in the examples: the shape
  \<^verbatim>\<open>YYYY-MM-DD\<close>.
\<close>

definition date_shape :: "string \<Rightarrow> bool" where
  "date_shape s =
     (length s = 10 \<and> s ! 4 = CHR ''-'' \<and> s ! 7 = CHR ''-'' \<and>
      list_all isDigit (take 4 s @ take 2 (drop 5 s) @ drop 8 s))"

text \<open>
  A well-formed request for five guests at table 3, which seats two and belongs to the
  inactive restaurant 2.
\<close>

definition over_request :: booking_request where
  "over_request =
     \<lparr>restaurantId = 2, tableId = 3, date = ''2025-04-01'', time = ''18:45'', guests = 5,
      specialRequests = None\<rparr>"

definition sample_item :: "int \<Rightarrow> int \<Rightarrow> enriched" where
  "sample_item k rd =
     \<lparr>e_id = k, e_title = ''Update'', e_message = ''Status changed'', e_type = ''info'',
      e_is_read = rd, e_created_at = 100, e_restaurant_name = None,
      e_restaurant_address = None, e_booking_details = None, e_order_details = None\<rparr>"

definition sample_panel :: panel where
  "sample_panel =
     \<lparr>notificationsState = [sample_item 1 0, sample_item 2 1], unreadCount = 1,
      isOpen = True, isLoading = False, loadingNotificationsRef = False\<rparr>"

section \<open>Facts about the join and the list query\<close>

lemma left_join_cases:
  "set (case filter P ys of [] \<Rightarrow> [(x, None)] | ms \<Rightarrow> map (\<lambda>y. (x, Some y)) ms)
   = (if \<forall>y\<in>set ys. \<not> P y then {(x, None)} else {(x, Some y) | y. y \<in> set ys \<and> P y})"
proof (cases "filter P ys")
  case Nil
  then show ?thesis by (simp add: filter_empty_conv)
next
  case (Cons a as)
  then have ne: "\<not> (\<forall>y\<in>set ys. \<not> P y)" by (metis filter_empty_conv list.distinct(1))
  have "set (map (\<lambda>y. (x, Some y)) (filter P ys)) = {(x, Some y) | y. y \<in> set ys \<and> P y}"
    by auto
  then have "set (case filter P ys of [] \<Rightarrow> [(x, None)] | ms \<Rightarrow> map (\<lambda>y. (x, Some y)) ms)
     = {(x, Some y) | y. y \<in> set ys \<and> P y}" by (simp only: Cons list.case)
  with ne show ?thesis by (simp only: if_False)
qed

lemma in_left_join:
  "p \<in> set (left_join xs ys on) \<longleftrightarrow>
     fst p \<in> set xs \<and>
     (case snd p of None \<Rightarrow> \<forall>y\<in>set ys. \<not> on (fst p) y
                  | Some y \<Rightarrow> y \<in> set ys \<and> on (fst p) y)"
proof -
  have "p \<in> set (left_join xs ys on) \<longleftrightarrow>
        (\<exists>x\<in>set xs. p \<in> (if \<forall>y\<in>set ys. \<not> on x y then {(x, None)}
                            else {(x, Some y) | y. y \<in> set ys \<and> on x y}))"
    unfolding left_join_def set_concat set_map left_join_cases[symmetric] by blast
  also have "\<dots> \<longleftrightarrow> fst p \<in> set xs \<and>
     (case snd p of None \<Rightarrow> \<forall>y\<in>set ys. \<not> on (fst p) y
                  | Some y \<Rightarrow> y \<in> set ys \<and> on (fst p) y)"
    by (cases p; cases "snd p") (auto split: if_splits)
  finally show ?thesis .
qed

lemma fst_left_join: "fst ` set (left_join xs ys on) = set xs"
proof (rule set_eqI)
  fix x
  show "x \<in> fst ` set (left_join xs ys on) \<longleftrightarrow> x \<in> set xs"
  proof
    assume "x \<in> fst ` set (left_join xs ys on)"
    then obtain p where p: "p \<in> set (left_join xs ys on)" and x: "x = fst p" by (rule imageE)
    from p have "fst p \<in> set xs" unfolding in_left_join[of p] by (rule conjunct1)
    with x show "x \<in> set xs" by simp
  next
    assume x: "x \<in> set xs"
    show "x \<in> fst ` set (left_join xs ys on)"
    proof (cases "\<forall>y\<in>set ys. \<not> on x y")
      case True
      with x have "(x, None) \<in> set (left_join xs ys on)"
        unfolding in_left_join[of "(x, None)"] by simp
      then have "fst (x, None :: 'b option) \<in> fst ` set (left_join xs ys on)" by (rule imageI)
      then show ?thesis by simp
    next
      case False
      then obtain y where "y \<in> set ys" "on x y" by blast
      with x have "(x, Some y) \<in> set (left_join xs ys on)"
        unfolding in_left_join[of "(x, Some y)"] by simp
      then have "fst (x, Some y) \<in> fst ` set (left_join xs ys on)" by (rule imageI)
      then show ?thesis by simp
    qed
  qed
qed

text \<open>No notification is lost in the join, whatever rows its keys refer to.\<close>

lemma jn_from_clause: "jn ` set (from_clause db) = set (notifications db)"
proof -
  have "jn ` set (from_clause db) = fst ` fst ` fst ` fst ` set (from_clause db)"
    unfolding image_image jn_def ..
  then show ?thesis
    unfolding from_clause_def by (simp only: fst_left_join)
qed

text \<open>What each joined row holds, relative to the tables.\<close>

lemma from_clause_row:
  assumes "t \<in> set (from_clause db)"
  shows "jn t \<in> set (notifications db)"
    and "case jr t of None \<Rightarrow> \<forall>r\<in>set (restaurants db). n_restaurant_id (jn t) \<noteq> Some (r_id r)
                    | Some r \<Rightarrow> r \<in> set (restaurants db) \<and> n_restaurant_id (jn t) = Some (r_id r)"
    and "case jb t of None \<Rightarrow> \<forall>b\<in>set (bookings db). n_booking_id (jn t) \<noteq> Some (b_id b)
                    | Some b \<Rightarrow> b \<in> set (bookings db) \<and> n_booking_id (jn t) = Some (b_id b)"
    and "case jo t of None \<Rightarrow> \<forall>ord\<in>set (orders db). n_order_id (jn t) \<noteq> Some (o_id ord)
                    | Some ord \<Rightarrow> ord \<in> set (orders db) \<and> n_order_id (jn t) = Some (o_id ord)"
proof -
  let ?J1 = "left_join (notifications db) (restaurants db)
                (\<lambda>n r. n_restaurant_id n = Some (r_id r))"
  let ?J2 = "left_join ?J1 (bookings db) (\<lambda>nr b. n_booking_id (fst nr) = Some (b_id b))"
  let ?J3 = "left_join ?J2 (restaurant_tables db)
          (\<lambda>nrb rt. case snd nrb of None \<Rightarrow> False | Some b \<Rightarrow> b_table_id b = rt_id rt)"
  from assms have 4: "fst t \<in> set ?J3"
    and o: "case snd t of None \<Rightarrow> \<forall>y\<in>set (orders db). n_order_id (fst (fst (fst (fst t)))) \<noteq> Some (o_id y)
                  | Some y \<Rightarrow> y \<in> set (orders db) \<and> n_order_id (fst (fst (fst (fst t)))) = Some (o_id y)"
    unfolding from_clause_def in_left_join[of t] by (simp_all split: option.splits)
  from 4 have 3: "fst (fst t) \<in> set ?J2"
    unfolding in_left_join[of "fst t"] by simp
  then have 2: "fst (fst (fst t)) \<in> set ?J1"
    and b: "case snd (fst (fst t)) of
               None \<Rightarrow> \<forall>y\<in>set (bookings db). n_booking_id (fst (fst (fst (fst t)))) \<noteq> Some (b_id y)
             | Some y \<Rightarrow> y \<in> set (bookings db) \<and> n_booking_id (fst (fst (fst (fst t)))) = Some (b_id y)"
    unfolding in_left_join[of "fst (fst t)"] by (simp_all split: option.splits)
  from 2 have n: "fst (fst (fst (fst t))) \<in> set (notifications db)"
    and r: "case snd (fst (fst (fst t))) of
              None \<Rightarrow> \<forall>y\<in>set (restaurants db). n_restaurant_id (fst (fst (fst (fst t)))) \<noteq> Some (r_id y)
            | Some y \<Rightarrow> y \<in> set (restaurants db) \<and> n_restaurant_id (fst (fst (fst (fst t)))) = Some (r_id y)"
    unfolding in_left_join[of "fst (fst (fst t))"] by (simp_all split: option.splits)
  show "jn t \<in> set (notifications db)" using n by (simp add: jn_def)
  show "case jr t of None \<Rightarrow> \<forall>r\<in>set (restaurants db). n_restaurant_id (jn t) \<noteq> Some (r_id r)
                    | Some r \<Rightarrow> r \<in> set (restaurants db) \<and> n_restaurant_id (jn t) = Some (r_id r)"
    using r unfolding jn_def jr_def .
  show "case jb t of None \<Rightarrow> \<forall>b\<in>set (bookings db). n_booking_id (jn t) \<noteq> Some (b_id b)
                    | Some b \<Rightarrow> b \<in> set (bookings db) \<and> n_booking_id (jn t) = Some (b_id b)"
    using b unfolding jn_def jb_def .
  show "case jo t of None \<Rightarrow> \<forall>ord\<in>set (orders db). n_order_id (jn t) \<noteq> Some (o_id ord)
                    | Some ord \<Rightarrow> ord \<in> set (orders db) \<and> n_order_id (jn t) = Some (o_id ord)"
    using o unfolding jn_def jo_def .
qed

lemma sql_limit_Some:
  assumes "sql_limit gw k rows = Some out"
  shows "accepts_limit gw k" and "set out \<subseteq> set rows"
proof -
  show a: "accepts_limit gw k"
  proof (rule ccontr)
    assume "\<not> accepts_limit gw k"
    then have "sql_limit gw k rows = None" unfolding sql_limit_def by simp
    with assms show False by simp
  qed
  show "set out \<subseteq> set rows"
  proof (cases "k < 0")
    case True
    with a have "sql_limit gw k rows = Some rows" unfolding sql_limit_def by simp
    with assms show ?thesis by simp
  next
    case False
    with a have "sql_limit gw k rows = Some (take (nat k) rows)" unfolding sql_limit_def by simp
    with assms have "out = take (nat k) rows" by simp
    then show ?thesis by (simp add: set_take_subset)
  qed
qed

lemma sql_limit_accepted:
  "accepts_limit gw k \<Longrightarrow> \<exists>out. sql_limit gw k rows = Some out"
  unfolding sql_limit_def by simp

lemma sql_limit_rejected:
  "\<not> accepts_limit gw k \<Longrightarrow> sql_limit gw k rows = None"
  unfolding sql_limit_def by simp

lemma notificationQuery_accepted:
  "accepts_limit gw lim \<Longrightarrow> \<exists>rows. notificationQuery gw db userId unread_only lim = Some rows"
  unfolding notificationQuery_def by (rule sql_limit_accepted)

lemma notificationQuery_rejected:
  "\<not> accepts_limit gw lim \<Longrightarrow> notificationQuery gw db userId unread_only lim = None"
  unfolding notificationQuery_def by (rule sql_limit_rejected)

lemma notificationQuery_row:
  assumes q: "notificationQuery gw db userId unread_only lim = Some rows"
    and t: "t \<in> set rows"
  shows "t \<in> set (from_clause db)" and "n_user_id (jn t) = userId"
    and "unread_only = Some ''true'' \<Longrightarrow> n_is_read (jn t) = 0"
proof -
  let ?P = "\<lambda>t. n_user_id (jn t) = userId \<and>
                 (if unread_only = Some ''true'' then n_is_read (jn t) = 0 else True)"
  from q have "sql_limit gw lim (order_by_created_at_desc gw (filter ?P (from_clause db)))
                 = Some rows"
    unfolding notificationQuery_def .
  then have "set rows \<subseteq> set (order_by_created_at_desc gw (filter ?P (from_clause db)))"
    by (rule sql_limit_Some(2))
  with t have "t \<in> set (order_by_created_at_desc gw (filter ?P (from_clause db)))"
    by (rule rev_subsetD)
  then have "t \<in> set (filter ?P (from_clause db))"
    unfolding order_by_created_at_desc_def set_sort .
  then have *: "t \<in> set (from_clause db) \<and> ?P t"
    unfolding set_filter by (rule CollectD)
  from * show "t \<in> set (from_clause db)" and "n_user_id (jn t) = userId"
    by simp_all
  from * show "unread_only = Some ''true'' \<Longrightarrow> n_is_read (jn t) = 0"
    by simp
qed

lemma find_map_same:
  "(\<And>x. P (f x) = P x) \<Longrightarrow> find P (map f xs) = map_option f (find P xs)"
  by (induction xs) simp_all

lemma set_map_cases:
  assumes "n \<in> set (map f xs)"
  obtains x where "x \<in> set xs" and "n = f x"
  using assms unfolding set_map by (rule imageE)

lemma find_is_Some:
  "(\<exists>x\<in>set xs. P x) \<Longrightarrow> \<exists>a. find P xs = Some a \<and> a \<in> set xs \<and> P a"
  by (induction xs) auto

lemma markRead_found:
  assumes "find (\<lambda>n. n_id n = ident \<and> n_user_id n = userId) (notifications db) = Some a"
  shows "markRead db ident userId =
           (db\<lparr>notifications :=
                 map (\<lambda>n. if n_id n = ident then n\<lparr>n_is_read := 1\<rparr> else n) (notifications db)\<rparr>,
            reply 200 True ''Notification marked as read'' None)"
  unfolding markRead_def assms by simp

lemma markRead_missing:
  assumes "find (\<lambda>n. n_id n = ident \<and> n_user_id n = userId) (notifications db) = None"
  shows "markRead db ident userId = (db, reply 404 False ''Notification not found'' None)"
  unfolding markRead_def assms by simp

lemma find_Some_holds: "find P xs = Some a \<Longrightarrow> P a \<and> a \<in> set xs"
  by (induction xs) (auto split: if_splits)

lemma getNotifications_data:
  assumes "notificationQuery gw db userId unread_only (limitInt limit) = Some rows"
  shows "getNotifications gw db userId limit unread_only =
     reply 200 True ''Notifications retrieved successfully''
       (Some \<lparr>data_notifications = map enrich (map select_columns rows),
               unread_count = or_zero (unreadCountQuery db userId),
               total_count = or_zero (totalCountQuery db userId)\<rparr>)"
  unfolding getNotifications_def assms Let_def by simp

lemma getNotifications_rejected:
  assumes "\<not> accepts_limit gw (limitInt limit)"
  shows "getNotifications gw db userId limit unread_only =
     reply 500 False ''Internal server error while fetching notifications'' None"
  unfolding getNotifications_def notificationQuery_rejected [OF assms] by simp

text \<open>An answer with data comes from rows that the list query returned.\<close>

lemma getNotifications_payload:
  assumes "data (getNotifications gw db userId limit unread_only) = Some d"
  shows "\<exists>rows. notificationQuery gw db userId unread_only (limitInt limit) = Some rows \<and>
           d = \<lparr>data_notifications = map enrich (map select_columns rows),
                unread_count = or_zero (unreadCountQuery db userId),
                total_count = or_zero (totalCountQuery db userId)\<rparr>"
proof (cases "notificationQuery gw db userId unread_only (limitInt limit)")
  case None
  then have "getNotifications gw db userId limit unread_only =
     reply 500 False ''Internal server error while fetching notifications'' None"
    unfolding getNotifications_def by simp
  then have "data (getNotifications gw db userId limit unread_only) = None"
    by (simp add: reply_def)
  with assms show ?thesis by simp
next
  case (Some rows)
  then have "data (getNotifications gw db userId limit unread_only) =
       Some \<lparr>data_notifications = map enrich (map select_columns rows),
               unread_count = or_zero (unreadCountQuery db userId),
               total_count = or_zero (totalCountQuery db userId)\<rparr>"
    unfolding getNotifications_data [OF Some] by (simp add: reply_def)
  with assms have "d = \<lparr>data_notifications = map enrich (map select_columns rows),
                unread_count = or_zero (unreadCountQuery db userId),
                total_count = or_zero (totalCountQuery db userId)\<rparr>"
    by simp
  with Some show ?thesis by blast
qed

text \<open>The answer is 200 with data when the store takes the limit, and 500 otherwise.\<close>

lemma getNotifications_status:
  "(accepts_limit gw (limitInt limit) \<longrightarrow>
      status (getNotifications gw db userId limit unread_only) = 200 \<and>
      data (getNotifications gw db userId limit unread_only) \<noteq> None) \<and>
   (\<not> accepts_limit gw (limitInt limit) \<longrightarrow>
      status (getNotifications gw db userId limit unread_only) = 500 \<and>
      data (getNotifications gw db userId limit unread_only) = None)"
proof (intro conjI impI)
  assume a: "accepts_limit gw (limitInt limit)"
  then obtain rows where r: "notificationQuery gw db userId unread_only (limitInt limit) = Some rows"
    using notificationQuery_accepted [of gw "limitInt limit" db userId unread_only] by blast
  show "status (getNotifications gw db userId limit unread_only) = 200"
    unfolding getNotifications_data [OF r] by (simp add: reply_def)
  show "data (getNotifications gw db userId limit unread_only) \<noteq> None"
    unfolding getNotifications_data [OF r] by (simp add: reply_def)
next
  assume a: "\<not> accepts_limit gw (limitInt limit)"
  show "status (getNotifications gw db userId limit unread_only) = 500"
    unfolding getNotifications_rejected [OF a] by (simp add: reply_def)
  show "data (getNotifications gw db userId limit unread_only) = None"
    unfolding getNotifications_rejected [OF a] by (simp add: reply_def)
qed

lemma enrich_is_read: "e_is_read (enrich (select_columns t)) = n_is_read (jn t)"
  by (simp add: enrich_def select_columns_def)

lemma enrich_id: "e_id (enrich (select_columns t)) = n_id (jn t)"
  by (simp add: enrich_def select_columns_def)


lemma markAllRead_all_read:
  "\<forall>n\<in>set (map (\<lambda>n. if n_user_id n = userId \<and> n_is_read n = 0 then n\<lparr>n_is_read := 1\<rparr> else n) xs).
      n_user_id n = userId \<longrightarrow> n_is_read n \<noteq> 0"
proof (intro ballI impI)
  let ?f = "\<lambda>n. if n_user_id n = userId \<and> n_is_read n = 0 then n\<lparr>n_is_read := 1\<rparr> else n"
  fix n assume m: "n \<in> set (map ?f xs)" and u: "n_user_id n = userId"
  from m obtain x where x: "n = ?f x" by (rule set_map_cases)
  show "n_is_read n \<noteq> 0"
  proof (cases "n_user_id x = userId \<and> n_is_read x = 0")
    case True
    then show ?thesis unfolding x by simp
  next
    case False
    with u show ?thesis unfolding x by auto
  qed
qed




lemma unlimited_query:
  assumes "accepts_limit gw k" and "k < 0"
  shows "\<exists>rows. notificationQuery gw db userId None k = Some rows \<and>
           jn ` set rows = {n \<in> set (notifications db). n_user_id n = userId}"
proof -
  let ?rows = "order_by_created_at_desc gw
                 (filter (\<lambda>t. n_user_id (jn t) = userId \<and>
                               (if (None :: string option) = Some ''true''
                                then n_is_read (jn t) = 0 else True))
                    (from_clause db))"
  from assms have q: "notificationQuery gw db userId None k = Some ?rows"
    unfolding notificationQuery_def sql_limit_def by simp
  have "set ?rows = {t \<in> set (from_clause db). n_user_id (jn t) = userId}"
    unfolding order_by_created_at_desc_def by simp
  then have "jn ` set ?rows = {n \<in> jn ` set (from_clause db). n_user_id n = userId}"
    by blast
  then have "jn ` set ?rows = {n \<in> set (notifications db). n_user_id n = userId}"
    unfolding jn_from_clause .
  with q show ?thesis by blast
qed

text \<open>A limit that is not negative bounds the length of the list.\<close>

lemma getNotifications_length:
  assumes "notificationQuery gw db userId unread_only lim = Some rows" and "0 \<le> lim"
  shows "length rows \<le> nat lim"
proof -
  let ?P = "\<lambda>t. n_user_id (jn t) = userId \<and>
                 (if unread_only = Some ''true'' then n_is_read (jn t) = 0 else True)"
  let ?all = "order_by_created_at_desc gw (filter ?P (from_clause db))"
  from assms(1) have s: "sql_limit gw lim ?all = Some rows" unfolding notificationQuery_def .
  then have a: "accepts_limit gw lim" by (rule sql_limit_Some(1))
  from assms(2) have "\<not> lim < 0" by simp
  with a have "sql_limit gw lim ?all = Some (take (nat lim) ?all)" unfolding sql_limit_def by simp
  with s have "rows = take (nat lim) ?all" by simp
  then show ?thesis by simp
qed

section \<open>The limit\<close>

text \<open>
  C10. The effective limit of a notification request is \<open>min (parseInt limit) 100\<close> with
  fallback 50: an absent parameter, one that parses to NaN and one that parses to 0
  give 50; a parsed value above 100 gives 100; a negative parsed value is the limit
  itself, with no lower bound.
\<close>

theorem limitInt_effective:
  "limitInt None = 50 \<and>
   (parseInt s = None \<longrightarrow> limitInt (Some s) = 50) \<and>
   (parseInt s = Some 0 \<longrightarrow> limitInt (Some s) = 50) \<and>
   (\<forall>v. parseInt s = Some v \<and> v \<noteq> 0 \<longrightarrow> limitInt (Some s) = min v 100) \<and>
   (\<forall>v. parseInt s = Some v \<and> 100 < v \<longrightarrow> limitInt (Some s) = 100) \<and>
   (\<forall>v. parseInt s = Some v \<and> v < 0 \<longrightarrow> limitInt (Some s) = v)"
  by (simp add: limitInt_def)

theorem limitInt_effective_witness:
  "parseInt ''abc'' = None \<and> limitInt (Some ''abc'') = 50 \<and>
   parseInt ''0'' = Some 0 \<and> limitInt (Some ''0'') = 50 \<and>
   parseInt ''250'' = Some 250 \<and> limitInt (Some ''250'') = 100 \<and>
   parseInt '' -5 rows'' = Some (- 5) \<and> limitInt (Some '' -5 rows'') = - 5 \<and>
   parseInt ''10'' = Some 10 \<and> limitInt (Some ''10'') = 10"
proof -
  have a: "parseInt ''abc'' = None" by code_simp
  have b: "parseInt ''0'' = Some 0" by code_simp
  have c: "parseInt ''250'' = Some 250" by code_simp
  have d: "parseInt '' -5 rows'' = Some (- 5)" by code_simp
  have e: "parseInt ''10'' = Some 10" by code_simp
  show ?thesis
    using a b c d e limitInt_effective [of "''abc''"] limitInt_effective [of "''0''"]
      limitInt_effective [of "''250''"] limitInt_effective [of "'' -5 rows''"]
      limitInt_effective [of "''10''"]
    by simp
qed

section \<open>The legacy count\<close>

text \<open>
  C9. For every user and every state of the store, the legacy unread-count operation
  answers 200 with a count, and that count is the \<open>unread_count\<close> of every answer with
  data that the consolidated operation gives for that user, whatever its limit and
  filter. The consolidated operation gives such an answer whenever the store takes its
  limit.
\<close>

theorem getUnreadCount_refines:
  "status (getUnreadCount db userId) = 200 \<and>
   (\<exists>c. data (getUnreadCount db userId) = Some c \<and>
        (\<forall>d. data (getNotifications gw db userId limit unread_only) = Some d \<longrightarrow>
             count c = unread_count d)) \<and>
   (accepts_limit gw (limitInt limit) \<longrightarrow>
      status (getNotifications gw db userId limit unread_only) = 200 \<and>
      data (getNotifications gw db userId limit unread_only) \<noteq> None)"
proof -
  let ?c = "\<lparr>count = or_zero (unreadCountQuery db userId)\<rparr>"
  have st: "status (getUnreadCount db userId) = 200"
    by (simp add: getUnreadCount_def reply_def Let_def)
  have dc: "data (getUnreadCount db userId) = Some ?c"
    by (simp add: getUnreadCount_def reply_def unreadCountQuery_def Let_def)
  have eq: "\<forall>d. data (getNotifications gw db userId limit unread_only) = Some d \<longrightarrow>
             count ?c = unread_count d"
  proof (intro allI impI)
    fix d assume "data (getNotifications gw db userId limit unread_only) = Some d"
    then obtain rows where "d = \<lparr>data_notifications = map enrich (map select_columns rows),
                unread_count = or_zero (unreadCountQuery db userId),
                total_count = or_zero (totalCountQuery db userId)\<rparr>"
      using getNotifications_payload by blast
    then show "count ?c = unread_count d" by simp
  qed
  from dc eq have ex: "\<exists>c. data (getUnreadCount db userId) = Some c \<and>
        (\<forall>d. data (getNotifications gw db userId limit unread_only) = Some d \<longrightarrow>
             count c = unread_count d)"
    by blast
  from st ex getNotifications_status [THEN conjunct1] show ?thesis by (intro conjI)
qed

theorem getUnreadCount_refines_witness:
  "accepts_limit sample_gateway (limitInt (Some ''2'')) \<and>
   data (getUnreadCount sample_db 7) = Some \<lparr>count = 3\<rparr> \<and>
   status (getNotifications sample_gateway sample_db 7 (Some ''2'') None) = 200 \<and>
   map_option unread_count (data (getNotifications sample_gateway sample_db 7 (Some ''2'') None))
     = Some 3"
proof -
  have a: "accepts_limit sample_gateway (limitInt (Some ''2''))" by code_simp
  have c: "data (getUnreadCount sample_db 7) = Some \<lparr>count = 3\<rparr>"
    by (simp add: getUnreadCount_def reply_def sample_db_def notif_def or_zero_def)
  note T = getUnreadCount_refines [of sample_db 7 sample_gateway "Some ''2''" None]
  from T a have st: "status (getNotifications sample_gateway sample_db 7 (Some ''2'') None) = 200"
    and nn: "data (getNotifications sample_gateway sample_db 7 (Some ''2'') None) \<noteq> None"
    by blast+
  from nn obtain d where d: "data (getNotifications sample_gateway sample_db 7 (Some ''2'') None) = Some d"
    by blast
  from T c d have "count \<lparr>count = 3\<rparr> = unread_count d" by auto
  then have "unread_count d = 3" by simp
  with d have u: "map_option unread_count
      (data (getNotifications sample_gateway sample_db 7 (Some ''2'') None)) = Some 3"
    by simp
  from a c st u show ?thesis by (intro conjI)
qed

section \<open>The unread filter and the unread count\<close>

text \<open>
  C1. For every user and every limit, in every answer with data that the consolidated
  operation gives under \<^verbatim>\<open>unread_only=true\<close>, every element of the list has
  \<open>is_read = 0\<close> and comes from an unread notification of that user, and the
  \<open>unread_count\<close> equals the number of that user's notifications with \<open>is_read = 0\<close>,
  whatever limit cut the list. The answer is 200 with data whenever the store takes the
  limit; a limit that the store rejects is answered 500 without a list or a count.
\<close>

theorem getNotifications_unread_only:
  "(accepts_limit gw (limitInt limit) \<longrightarrow>
      status (getNotifications gw db userId limit (Some ''true'')) = 200 \<and>
      data (getNotifications gw db userId limit (Some ''true'')) \<noteq> None) \<and>
   (\<forall>d. data (getNotifications gw db userId limit (Some ''true'')) = Some d \<longrightarrow>
        (\<forall>e\<in>set (data_notifications d).
            e_is_read e = 0 \<and>
            (\<exists>n\<in>set (notifications db).
                n_id n = e_id e \<and> n_user_id n = userId \<and> n_is_read n = 0)) \<and>
        unread_count d =
          int (length (filter (\<lambda>n. n_user_id n = userId \<and> n_is_read n = 0)
                         (notifications db))))"
proof (intro conjI allI impI)
  assume "accepts_limit gw (limitInt limit)"
  with getNotifications_status [of gw limit db userId "Some ''true''"]
  show "status (getNotifications gw db userId limit (Some ''true'')) = 200"
    and "data (getNotifications gw db userId limit (Some ''true'')) \<noteq> None"
    by blast+
next
  fix d assume "data (getNotifications gw db userId limit (Some ''true'')) = Some d"
  then obtain rows
    where q: "notificationQuery gw db userId (Some ''true'') (limitInt limit) = Some rows"
      and d: "d = \<lparr>data_notifications = map enrich (map select_columns rows),
                unread_count = or_zero (unreadCountQuery db userId),
                total_count = or_zero (totalCountQuery db userId)\<rparr>"
    using getNotifications_payload by blast
  show "\<forall>e\<in>set (data_notifications d).
            e_is_read e = 0 \<and>
            (\<exists>n\<in>set (notifications db).
                n_id n = e_id e \<and> n_user_id n = userId \<and> n_is_read n = 0)"
  proof (rule ballI)
    fix e assume "e \<in> set (data_notifications d)"
    then have "e \<in> set (map (\<lambda>t. enrich (select_columns t)) rows)"
      unfolding d by (simp add: comp_def)
    then obtain t where t: "t \<in> set rows" and e: "e = enrich (select_columns t)"
      by (rule set_map_cases)
    have fc: "t \<in> set (from_clause db)" by (rule notificationQuery_row(1) [OF q t])
    have u: "n_user_id (jn t) = userId" by (rule notificationQuery_row(2) [OF q t])
    have r: "n_is_read (jn t) = 0" by (rule notificationQuery_row(3) [OF q t refl])
    from fc have n: "jn t \<in> set (notifications db)" by (rule from_clause_row(1))
    have "e_is_read e = 0" unfolding e enrich_is_read by (rule r)
    moreover have "n_id (jn t) = e_id e" unfolding e enrich_id ..
    ultimately show "e_is_read e = 0 \<and>
            (\<exists>n\<in>set (notifications db).
                n_id n = e_id e \<and> n_user_id n = userId \<and> n_is_read n = 0)"
      using n u r by blast
  qed
  show "unread_count d =
          int (length (filter (\<lambda>n. n_user_id n = userId \<and> n_is_read n = 0)
                         (notifications db)))"
    unfolding d by (simp add: or_zero_def unreadCountQuery_def)
qed

theorem getNotifications_unread_only_witness:
  "accepts_limit sample_gateway (limitInt (Some ''2'')) \<and>
   status (getNotifications sample_gateway sample_db 7 (Some ''2'') (Some ''true'')) = 200 \<and>
   map e_id (data_notifications (the (data
      (getNotifications sample_gateway sample_db 7 (Some ''2'') (Some ''true''))))) = [4, 2] \<and>
   map e_is_read (data_notifications (the (data
      (getNotifications sample_gateway sample_db 7 (Some ''2'') (Some ''true''))))) = [0, 0] \<and>
   unread_count (the (data
      (getNotifications sample_gateway sample_db 7 (Some ''2'') (Some ''true'')))) = 3"
proof -
  let ?resp = "getNotifications sample_gateway sample_db 7 (Some ''2'') (Some ''true'')"
  have a: "accepts_limit sample_gateway (limitInt (Some ''2''))" by code_simp
  have ids: "map e_id (data_notifications (the (data ?resp))) = [4, 2]"
    by code_simp
  then have len: "length (data_notifications (the (data ?resp))) = 2"
    using length_map [of e_id "data_notifications (the (data ?resp))"] by simp
  have cnt: "int (length (filter (\<lambda>n. n_user_id n = 7 \<and> n_is_read n = 0)
                         (notifications sample_db))) = 3"
    by code_simp
  note T = getNotifications_unread_only [of sample_gateway "Some ''2''" sample_db 7]
  from T a have st: "status ?resp = 200" and nn: "data ?resp \<noteq> None" by blast+
  from nn obtain d where d: "data ?resp = Some d" by blast
  from T d have rd: "\<forall>e\<in>set (data_notifications d). e_is_read e = 0"
    and c: "unread_count d =
          int (length (filter (\<lambda>n. n_user_id n = 7 \<and> n_is_read n = 0)
                         (notifications sample_db)))"
    by blast+
  have the_d: "the (data ?resp) = d" unfolding d by simp
  from rd have "map e_is_read (data_notifications d) = replicate (length (data_notifications d)) 0"
    by (simp add: map_replicate_const [symmetric] cong: map_cong)
  with len have reads: "map e_is_read (data_notifications d) = [0, 0]"
    unfolding the_d by (simp add: numeral_2_eq_2)
  from c cnt have "unread_count d = 3" by simp
  with a st ids reads show ?thesis unfolding the_d by (intro conjI)
qed

section \<open>Marking one notification read\<close>

text \<open>
  C7. \<open>markRead\<close> answers 404 exactly when no notification has the given id and user.
  Otherwise it answers 200, every notification with that id is read afterwards, and a
  second call answers 200 again and leaves the store as the first call left it.
\<close>

theorem markRead_idempotent:
  "(status (snd (markRead db ident userId)) = 404 \<longleftrightarrow>
      \<not> (\<exists>n\<in>set (notifications db). n_id n = ident \<and> n_user_id n = userId)) \<and>
   ((\<exists>n\<in>set (notifications db). n_id n = ident \<and> n_user_id n = userId) \<longrightarrow>
      status (snd (markRead db ident userId)) = 200 \<and>
      (\<forall>n\<in>set (notifications (fst (markRead db ident userId))).
          n_id n = ident \<longrightarrow> n_is_read n = 1) \<and>
      markRead (fst (markRead db ident userId)) ident userId =
        (fst (markRead db ident userId), reply 200 True ''Notification marked as read'' None))"
proof (cases "\<exists>n\<in>set (notifications db). n_id n = ident \<and> n_user_id n = userId")
  case False
  then have "find (\<lambda>n. n_id n = ident \<and> n_user_id n = userId) (notifications db) = None"
    unfolding find_None_iff by blast
  then have "markRead db ident userId = (db, reply 404 False ''Notification not found'' None)"
    by (rule markRead_missing)
  then have "status (snd (markRead db ident userId)) = 404" by (simp add: reply_def)
  with False show ?thesis by blast
next
  case True
  let ?f = "\<lambda>n. if n_id n = ident then n\<lparr>n_is_read := 1\<rparr> else n"
  let ?db1 = "db\<lparr>notifications := map ?f (notifications db)\<rparr>"
  let ?ok = "reply 200 True ''Notification marked as read'' None :: unit response"
  from True obtain a where a: "find (\<lambda>n. n_id n = ident \<and> n_user_id n = userId) (notifications db) = Some a"
    using find_is_Some [of "notifications db" "\<lambda>n. n_id n = ident \<and> n_user_id n = userId"] by blast
  then have first: "markRead db ident userId = (?db1, ?ok)" by (rule markRead_found)
  have "find (\<lambda>n. n_id n = ident \<and> n_user_id n = userId) (map ?f (notifications db))
        = map_option ?f (find (\<lambda>n. n_id n = ident \<and> n_user_id n = userId) (notifications db))"
    by (rule find_map_same) simp
  then have found: "find (\<lambda>n. n_id n = ident \<and> n_user_id n = userId) (notifications ?db1) = Some (?f a)"
    unfolding a by simp
  have idem: "map ?f (map ?f (notifications db)) = map ?f (notifications db)"
    by simp
  have "markRead ?db1 ident userId = (?db1\<lparr>notifications := map ?f (notifications ?db1)\<rparr>, ?ok)"
    using found by (rule markRead_found)
  also have "?db1\<lparr>notifications := map ?f (notifications ?db1)\<rparr> = ?db1"
    using idem by simp
  finally have second: "markRead ?db1 ident userId = (?db1, ?ok)" .
  have rd: "\<forall>n\<in>set (notifications ?db1). n_id n = ident \<longrightarrow> n_is_read n = 1"
  proof (intro ballI impI)
    fix n assume m: "n \<in> set (notifications ?db1)" and i: "n_id n = ident"
    have sel: "notifications ?db1 = map ?f (notifications db)" by simp
    from m have "n \<in> set (map ?f (notifications db))" unfolding sel .
    then obtain x where x: "n = ?f x" by (rule set_map_cases)
    show "n_is_read n = 1"
    proof (cases "n_id x = ident")
      case True
      then show ?thesis unfolding x by simp
    next
      case False
      with i show ?thesis unfolding x by simp
    qed
  qed
  have s1: "status (snd (markRead db ident userId)) = 200"
    unfolding first by (simp add: reply_def)
  have f1: "fst (markRead db ident userId) = ?db1" unfolding first by simp
  from s1 have ne: "status (snd (markRead db ident userId)) \<noteq> 404" by simp
  show ?thesis
  proof (intro conjI impI)
    show "status (snd (markRead db ident userId)) = 404 \<longleftrightarrow>
          \<not> (\<exists>n\<in>set (notifications db). n_id n = ident \<and> n_user_id n = userId)"
      using True ne by blast
    show "status (snd (markRead db ident userId)) = 200" by (rule s1)
    show "\<forall>n\<in>set (notifications (fst (markRead db ident userId))).
            n_id n = ident \<longrightarrow> n_is_read n = 1"
      unfolding f1 by (rule rd)
    show "markRead (fst (markRead db ident userId)) ident userId =
            (fst (markRead db ident userId), ?ok)"
      unfolding f1 by (rule second)
  qed
qed

theorem markRead_idempotent_witness:
  "(\<exists>n\<in>set (notifications sample_db). n_id n = 1 \<and> n_user_id n = 7) \<and>
   status (snd (markRead sample_db 1 7)) = 200 \<and>
   markRead (fst (markRead sample_db 1 7)) 1 7 =
     (fst (markRead sample_db 1 7), reply 200 True ''Notification marked as read'' None) \<and>
   \<not> (\<exists>n\<in>set (notifications sample_db). n_id n = 6 \<and> n_user_id n = 7) \<and>
   status (snd (markRead sample_db 6 7)) = 404"
proof -
  have a: "\<exists>n\<in>set (notifications sample_db). n_id n = 1 \<and> n_user_id n = 7"
    by (simp add: sample_db_def notif_def)
  have b: "\<not> (\<exists>n\<in>set (notifications sample_db). n_id n = 6 \<and> n_user_id n = 7)"
    by (simp add: sample_db_def notif_def)
  from a b markRead_idempotent [of sample_db 1 7] markRead_idempotent [of sample_db 6 7]
  show ?thesis by blast
qed

section \<open>Cancelling twice\<close>

text \<open>
  C5. When the booking that the store returns for the id and the owner is already
  cancelled, \<open>cancelBooking\<close> answers 400 "already cancelled" and returns the store
  as it was: no booking row and no table changes. In particular the call that follows a
  successful cancellation is answered so.
\<close>

theorem cancelBooking_twice:
  "(find (\<lambda>b. b_id b = ident \<and> b_user_id b = userId) (bookings db) = Some booking \<and>
    b_status booking = ''cancelled'' \<longrightarrow>
      cancelBooking db now ident userId =
        (db, reply 400 False ''Booking is already cancelled'' None)) \<and>
   (status (snd (cancelBooking db now ident userId)) = 200 \<longrightarrow>
      cancelBooking (fst (cancelBooking db now ident userId)) later ident userId =
        (fst (cancelBooking db now ident userId),
         reply 400 False ''Booking is already cancelled'' None))"
proof (intro conjI impI)
  assume "find (\<lambda>b. b_id b = ident \<and> b_user_id b = userId) (bookings db) = Some booking \<and>
    b_status booking = ''cancelled''"
  then show "cancelBooking db now ident userId =
        (db, reply 400 False ''Booking is already cancelled'' None)"
    unfolding cancelBooking_def by simp
next
  let ?P = "\<lambda>b. b_id b = ident \<and> b_user_id b = userId"
  let ?g = "\<lambda>b. if b_id b = ident
                 then b\<lparr>b_status := ''cancelled'', b_updated_at := Some now\<rparr> else b"
  assume ok: "status (snd (cancelBooking db now ident userId)) = 200"
  show "cancelBooking (fst (cancelBooking db now ident userId)) later ident userId =
        (fst (cancelBooking db now ident userId),
         reply 400 False ''Booking is already cancelled'' None)"
  proof (cases "find ?P (bookings db)")
    case None
    then have "status (snd (cancelBooking db now ident userId)) = 404"
      unfolding cancelBooking_def by (simp add: reply_def)
    with ok show ?thesis by simp
  next
    case (Some bk)
    show ?thesis
    proof (cases "b_status bk = ''cancelled''")
      case True
      with Some have "status (snd (cancelBooking db now ident userId)) = 400"
        unfolding cancelBooking_def by (simp add: reply_def)
      with ok show ?thesis by simp
    next
      case False
      let ?db1 = "db\<lparr>bookings := map ?g (bookings db),
                     restaurant_tables :=
                       map (\<lambda>t. if rt_id t = b_table_id bk
                                 then t\<lparr>rt_status := ''available''\<rparr> else t)
                         (restaurant_tables db)\<rparr>"
      from Some False have first: "fst (cancelBooking db now ident userId) = ?db1"
        unfolding cancelBooking_def by simp
      from Some have pbk: "b_id bk = ident" using find_Some_holds [of ?P "bookings db" bk] by simp
      have "find ?P (map ?g (bookings db)) = map_option ?g (find ?P (bookings db))"
        by (rule find_map_same) simp
      then have "find ?P (bookings ?db1) = Some (?g bk)" unfolding Some by simp
      moreover have "b_status (?g bk) = ''cancelled''" using pbk by simp
      ultimately have "cancelBooking ?db1 later ident userId =
          (?db1, reply 400 False ''Booking is already cancelled'' None)"
        unfolding cancelBooking_def by simp
      then show ?thesis unfolding first .
    qed
  qed
qed

theorem cancelBooking_twice_witness:
  "find (\<lambda>b. b_id b = 2 \<and> b_user_id b = 7) (bookings sample_db) = Some (bookings sample_db ! 1) \<and>
   b_status (bookings sample_db ! 1) = ''cancelled'' \<and>
   cancelBooking sample_db 50 2 7 = (sample_db, reply 400 False ''Booking is already cancelled'' None) \<and>
   status (snd (cancelBooking sample_db 50 1 7)) = 200 \<and>
   status (snd (cancelBooking (fst (cancelBooking sample_db 50 1 7)) 60 1 7)) = 400"
proof -
  have a: "find (\<lambda>b. b_id b = 2 \<and> b_user_id b = 7) (bookings sample_db) = Some (bookings sample_db ! 1)"
    by (simp add: sample_db_def)
  have b: "b_status (bookings sample_db ! 1) = ''cancelled''"
    by (simp add: sample_db_def)
  have c: "status (snd (cancelBooking sample_db 50 1 7)) = 200"
    by (simp add: cancelBooking_def sample_db_def reply_def)
  from a b c cancelBooking_twice [of 2 7 sample_db "bookings sample_db ! 1" 50 60]
    cancelBooking_twice [of 1 7 sample_db "bookings sample_db ! 1" 50 60]
  show ?thesis by (simp add: reply_def)
qed

section \<open>Marking all notifications read\<close>

text \<open>
  C6. For every user, \<open>markAllRead\<close> answers 200, sets \<open>is_read = 1\<close> on each of that
  user's unread notifications and leaves every other row as it was, and returns the
  store unchanged when the user has no unread notification. An immediately following
  consolidated read with \<^verbatim>\<open>unread_only=true\<close> for that user, with a limit that the
  store takes, answers 200 with an empty list and \<open>unread_count = 0\<close>; no answer with
  data of that read has another list or count.
\<close>

theorem markAllRead_then_unread_empty:
  "status (snd (markAllRead db userId)) = 200 \<and>
   length (notifications (fst (markAllRead db userId))) = length (notifications db) \<and>
   (\<forall>i<length (notifications db).
       notifications (fst (markAllRead db userId)) ! i =
         (if n_user_id (notifications db ! i) = userId \<and> n_is_read (notifications db ! i) = 0
          then (notifications db ! i)\<lparr>n_is_read := 1\<rparr> else notifications db ! i)) \<and>
   ((\<forall>n\<in>set (notifications db). n_user_id n = userId \<longrightarrow> n_is_read n \<noteq> 0) \<longrightarrow>
       fst (markAllRead db userId) = db) \<and>
   (\<forall>d. data (getNotifications gw (fst (markAllRead db userId)) userId limit (Some ''true''))
            = Some d \<longrightarrow>
        data_notifications d = [] \<and> unread_count d = 0) \<and>
   (accepts_limit gw (limitInt limit) \<longrightarrow>
      status (getNotifications gw (fst (markAllRead db userId)) userId limit (Some ''true''))
        = 200 \<and>
      (\<exists>d. data (getNotifications gw (fst (markAllRead db userId)) userId limit (Some ''true''))
               = Some d \<and>
           data_notifications d = [] \<and> unread_count d = 0))"
proof -
  let ?f = "\<lambda>n. if n_user_id n = userId \<and> n_is_read n = 0 then n\<lparr>n_is_read := 1\<rparr> else n"
  let ?db1 = "db\<lparr>notifications := map ?f (notifications db)\<rparr>"
  have f1: "fst (markAllRead db userId) = ?db1" by (simp add: markAllRead_def)
  have sel: "notifications ?db1 = map ?f (notifications db)" by simp
  have st: "status (snd (markAllRead db userId)) = 200"
    by (simp add: markAllRead_def reply_def)
  have len: "length (notifications ?db1) = length (notifications db)"
    unfolding sel by (rule length_map)
  have nth: "\<forall>i<length (notifications db).
       notifications ?db1 ! i =
         (if n_user_id (notifications db ! i) = userId \<and> n_is_read (notifications db ! i) = 0
          then (notifications db ! i)\<lparr>n_is_read := 1\<rparr> else notifications db ! i)"
    unfolding sel by (intro allI impI) (simp only: nth_map)
  have noop: "(\<forall>n\<in>set (notifications db). n_user_id n = userId \<longrightarrow> n_is_read n \<noteq> 0) \<longrightarrow>
       ?db1 = db"
  proof
    assume a: "\<forall>n\<in>set (notifications db). n_user_id n = userId \<longrightarrow> n_is_read n \<noteq> 0"
    have "map ?f (notifications db) = notifications db"
    proof (rule map_idI)
      fix x assume "x \<in> set (notifications db)"
      with a have "\<not> (n_user_id x = userId \<and> n_is_read x = 0)" by blast
      then show "?f x = x" by (simp only: if_False)
    qed
    then show "?db1 = db" by simp
  qed
  have allread: "\<forall>n\<in>set (notifications ?db1). n_user_id n = userId \<longrightarrow> n_is_read n \<noteq> 0"
    unfolding sel by (rule markAllRead_all_read)
  let ?resp = "getNotifications gw ?db1 userId limit (Some ''true'')"
  have "filter (\<lambda>n. n_user_id n = userId \<and> n_is_read n = 0) (notifications ?db1) = []"
    unfolding filter_empty_conv using allread by blast
  then have c: "unreadCountQuery ?db1 userId = 0"
    unfolding unreadCountQuery_def by simp
  have payload: "\<forall>d. data ?resp = Some d \<longrightarrow> data_notifications d = [] \<and> unread_count d = 0"
  proof (intro allI impI)
    fix d assume "data ?resp = Some d"
    then obtain rows
      where q: "notificationQuery gw ?db1 userId (Some ''true'') (limitInt limit) = Some rows"
        and d: "d = \<lparr>data_notifications = map enrich (map select_columns rows),
                  unread_count = or_zero (unreadCountQuery ?db1 userId),
                  total_count = or_zero (totalCountQuery ?db1 userId)\<rparr>"
      using getNotifications_payload by blast
    have "set rows = {}"
    proof (rule equals0I)
      fix t assume t: "t \<in> set rows"
      have fc: "t \<in> set (from_clause ?db1)" by (rule notificationQuery_row(1) [OF q t])
      have u: "n_user_id (jn t) = userId" by (rule notificationQuery_row(2) [OF q t])
      have r: "n_is_read (jn t) = 0" by (rule notificationQuery_row(3) [OF q t refl])
      from fc have "jn t \<in> set (notifications ?db1)" by (rule from_clause_row(1))
      with allread u have "n_is_read (jn t) \<noteq> 0" by blast
      with r show False by contradiction
    qed
    then have rows: "rows = []" by simp
    have d1: "data_notifications d = []" unfolding d rows by simp
    have d2: "unread_count d = 0" unfolding d c by (simp add: or_zero_def)
    from d1 d2 show "data_notifications d = [] \<and> unread_count d = 0" ..
  qed
  have acc: "accepts_limit gw (limitInt limit) \<longrightarrow>
      status ?resp = 200 \<and>
      (\<exists>d. data ?resp = Some d \<and> data_notifications d = [] \<and> unread_count d = 0)"
  proof
    assume "accepts_limit gw (limitInt limit)"
    with getNotifications_status [of gw limit ?db1 userId "Some ''true''"]
    have s: "status ?resp = 200" and nn: "data ?resp \<noteq> None" by blast+
    from nn obtain d where d: "data ?resp = Some d" by blast
    with payload have "data_notifications d = [] \<and> unread_count d = 0" by blast
    with d have "\<exists>d. data ?resp = Some d \<and> data_notifications d = [] \<and> unread_count d = 0"
      by blast
    with s show "status ?resp = 200 \<and>
      (\<exists>d. data ?resp = Some d \<and> data_notifications d = [] \<and> unread_count d = 0)" ..
  qed
  show ?thesis unfolding f1 using st len nth noop payload acc by (intro conjI)
qed

theorem markAllRead_then_unread_empty_witness:
  "accepts_limit sample_gateway (limitInt None) \<and>
   filter (\<lambda>n. n_user_id n = 7 \<and> n_is_read n = 0)
     (notifications (fst (markAllRead sample_db 7))) = [] \<and>
   fst (markAllRead (fst (markAllRead sample_db 7)) 7) = fst (markAllRead sample_db 7) \<and>
   status (getNotifications sample_gateway (fst (markAllRead sample_db 7)) 7 None (Some ''true''))
     = 200 \<and>
   (\<exists>d. data (getNotifications sample_gateway (fst (markAllRead sample_db 7)) 7 None
                 (Some ''true'')) = Some d \<and>
        data_notifications d = [] \<and> unread_count d = 0)"
proof -
  have acc: "accepts_limit sample_gateway (limitInt None)" by code_simp
  have a: "filter (\<lambda>n. n_user_id n = 7 \<and> n_is_read n = 0)
     (notifications (fst (markAllRead sample_db 7))) = []"
    by (simp add: markAllRead_def sample_db_def notif_def)
  have b: "\<forall>n\<in>set (notifications (fst (markAllRead sample_db 7))).
              n_user_id n = 7 \<longrightarrow> n_is_read n \<noteq> 0"
    by (simp add: markAllRead_def sample_db_def notif_def)
  have noop: "fst (markAllRead (fst (markAllRead sample_db 7)) 7) = fst (markAllRead sample_db 7)"
    using b markAllRead_then_unread_empty [of "fst (markAllRead sample_db 7)" 7 sample_gateway None,
        THEN conjunct2, THEN conjunct2, THEN conjunct2, THEN conjunct1]
    by (rule rev_mp)
  have ex: "status (getNotifications sample_gateway (fst (markAllRead sample_db 7)) 7 None
                      (Some ''true'')) = 200 \<and>
      (\<exists>d. data (getNotifications sample_gateway (fst (markAllRead sample_db 7)) 7 None
                 (Some ''true'')) = Some d \<and>
        data_notifications d = [] \<and> unread_count d = 0)"
    using acc markAllRead_then_unread_empty [of sample_db 7 sample_gateway None,
        THEN conjunct2, THEN conjunct2, THEN conjunct2, THEN conjunct2, THEN conjunct2]
    by (rule rev_mp)
  from ex have ex1: "status (getNotifications sample_gateway (fst (markAllRead sample_db 7)) 7 None
                      (Some ''true'')) = 200" by (rule conjunct1)
  from ex have ex2: "\<exists>d. data (getNotifications sample_gateway (fst (markAllRead sample_db 7)) 7 None
                 (Some ''true'')) = Some d \<and>
        data_notifications d = [] \<and> unread_count d = 0" by (rule conjunct2)
  from acc a noop ex1 ex2 show ?thesis by (intro conjI)
qed

section \<open>Enrichment with absent related rows\<close>




section \<open>Creating a booking\<close>

text \<open>
  C3. For every request that passes validation, whose restaurant is found active, whose
  table is found in that restaurant, whose guest count is at most the table's capacity
  and whose table is available, \<open>createBooking\<close> answers 201 with the booking id, the
  restaurant's name, the table's number, the date, time and guest count of the request
  and the status confirmed; it appends one booking row with status confirmed and the
  request's values, every table with the requested id is reserved afterwards, and the
  other tables of the store keep their rows.
\<close>

theorem createBooking_success:
  assumes v: "bookingValidation isISO8601 body = []"
    and r: "find (\<lambda>r. r_id r = restaurantId body \<and> r_is_active r = 1) (restaurants db)
              = Some restaurant"
    and t: "find (\<lambda>t. rt_id t = tableId body \<and> rt_restaurant_id t = restaurantId body)
              (restaurant_tables db) = Some table"
    and g: "guests body \<le> rt_capacity table"
    and a: "rt_status table = ''available''"
  shows "\<exists>db'.
     createBooking isISO8601 db newId userId body =
       (db', reply 201 True ''Booking created successfully''
               (Some \<lparr>bookingId = newId, restaurantName = r_name restaurant,
                       tableNumber = rt_table_number table, data_date = date body,
                       data_time = time body, data_guests = guests body,
                       data_status = ''confirmed''\<rparr>)) \<and>
     (\<exists>row. bookings db' = bookings db @ [row] \<and>
            b_id row = newId \<and> b_user_id row = userId \<and>
            b_restaurant_id row = restaurantId body \<and> b_table_id row = tableId body \<and>
            b_date row = date body \<and> b_time row = time body \<and>
            b_guests row = guests body \<and> b_status row = ''confirmed'') \<and>
     (\<forall>x\<in>set (restaurant_tables db'). rt_id x = tableId body \<longrightarrow> rt_status x = ''reserved'') \<and>
     find (\<lambda>t. rt_id t = tableId body \<and> rt_restaurant_id t = restaurantId body)
       (restaurant_tables db') = Some (table\<lparr>rt_status := ''reserved''\<rparr>) \<and>
     restaurants db' = restaurants db \<and> orders db' = orders db \<and>
     notifications db' = notifications db"
proof -
  let ?h = "\<lambda>t. if rt_id t = tableId body then t\<lparr>rt_status := ''reserved''\<rparr> else t"
  let ?row = "\<lparr>b_id = newId, b_user_id = userId,
                b_restaurant_id = restaurantId body, b_table_id = tableId body,
                b_date = date body, b_time = time body, b_guests = guests body,
                b_special_requests = or_null (specialRequests body),
                b_status = ''confirmed'', b_updated_at = None\<rparr>"
  let ?db' = "db\<lparr>bookings := bookings db @ [?row],
                  restaurant_tables := map ?h (restaurant_tables db)\<rparr>"
  let ?P = "\<lambda>t. rt_id t = tableId body \<and> rt_restaurant_id t = restaurantId body"
  from g have ng: "\<not> guests body > rt_capacity table" by simp
  have run: "createBooking isISO8601 db newId userId body =
       (?db', reply 201 True ''Booking created successfully''
               (Some \<lparr>bookingId = newId, restaurantName = r_name restaurant,
                       tableNumber = rt_table_number table, data_date = date body,
                       data_time = time body, data_guests = guests body,
                       data_status = ''confirmed''\<rparr>))"
    unfolding createBooking_def v r t Let_def using ng a by simp
  have row: "\<exists>row. bookings ?db' = bookings db @ [row] \<and>
            b_id row = newId \<and> b_user_id row = userId \<and>
            b_restaurant_id row = restaurantId body \<and> b_table_id row = tableId body \<and>
            b_date row = date body \<and> b_time row = time body \<and>
            b_guests row = guests body \<and> b_status row = ''confirmed''"
    by (rule exI [of _ ?row]) simp
  have sel: "restaurant_tables ?db' = map ?h (restaurant_tables db)" by simp
  have res: "\<forall>x\<in>set (restaurant_tables ?db'). rt_id x = tableId body \<longrightarrow> rt_status x = ''reserved''"
  proof (intro ballI impI)
    fix x assume m: "x \<in> set (restaurant_tables ?db')" and i: "rt_id x = tableId body"
    from m have "x \<in> set (map ?h (restaurant_tables db))" unfolding sel .
    then obtain y where y: "x = ?h y" by (rule set_map_cases)
    show "rt_status x = ''reserved''"
    proof (cases "rt_id y = tableId body")
      case True
      then show ?thesis unfolding y by simp
    next
      case False
      with i show ?thesis unfolding y by simp
    qed
  qed
  from t have pt: "rt_id table = tableId body" using find_Some_holds [of ?P "restaurant_tables db" table] by simp
  have "find ?P (map ?h (restaurant_tables db)) = map_option ?h (find ?P (restaurant_tables db))"
    by (rule find_map_same) simp
  then have fnd: "find ?P (restaurant_tables ?db') = Some (table\<lparr>rt_status := ''reserved''\<rparr>)"
    unfolding sel t using pt by simp
  have rest: "restaurants ?db' = restaurants db" "orders ?db' = orders db"
    "notifications ?db' = notifications db" by simp_all
  show ?thesis
    by (rule exI [of _ ?db']) (intro conjI run row res fnd rest)
qed


theorem createBooking_success_witness:
  "bookingValidation date_shape sample_request = [] \<and>
   guests sample_request \<le> rt_capacity (restaurant_tables sample_db ! 0) \<and>
   rt_status (restaurant_tables sample_db ! 0) = ''available'' \<and>
   status (snd (createBooking date_shape sample_db 3 7 sample_request)) = 201 \<and>
   map b_status (bookings (fst (createBooking date_shape sample_db 3 7 sample_request)))
     = [''confirmed'', ''cancelled'', ''confirmed''] \<and>
   map rt_status (restaurant_tables (fst (createBooking date_shape sample_db 3 7 sample_request)))
     = [''reserved'', ''reserved'', ''available'']"
proof -
  have v: "bookingValidation date_shape sample_request = []" by code_simp
  have r: "find (\<lambda>r. r_id r = restaurantId sample_request \<and> r_is_active r = 1)
             (restaurants sample_db) = Some (restaurants sample_db ! 0)"
    by (simp add: sample_db_def sample_request_def)
  have t: "find (\<lambda>t. rt_id t = tableId sample_request \<and>
                      rt_restaurant_id t = restaurantId sample_request)
             (restaurant_tables sample_db) = Some (restaurant_tables sample_db ! 0)"
    by (simp add: sample_db_def sample_request_def)
  have g: "guests sample_request \<le> rt_capacity (restaurant_tables sample_db ! 0)"
    by (simp add: sample_db_def sample_request_def)
  have a: "rt_status (restaurant_tables sample_db ! 0) = ''available''"
    by (simp add: sample_db_def)
  from createBooking_success [OF v r t g a, of 3 7]
  obtain db' where run: "createBooking date_shape sample_db 3 7 sample_request =
       (db', reply 201 True ''Booking created successfully''
               (Some \<lparr>bookingId = 3, restaurantName = r_name (restaurants sample_db ! 0),
                       tableNumber = rt_table_number (restaurant_tables sample_db ! 0),
                       data_date = date sample_request,
                       data_time = time sample_request, data_guests = guests sample_request,
                       data_status = ''confirmed''\<rparr>))"
    by blast
  have st: "status (snd (createBooking date_shape sample_db 3 7 sample_request)) = 201"
    unfolding run by (simp add: reply_def)
  have bs: "map b_status (bookings (fst (createBooking date_shape sample_db 3 7 sample_request)))
             = [''confirmed'', ''cancelled'', ''confirmed'']"
    by code_simp
  have ts: "map rt_status (restaurant_tables (fst (createBooking date_shape sample_db 3 7 sample_request)))
             = [''reserved'', ''reserved'', ''available'']"
    by code_simp
  from v g a st bs ts show ?thesis by (intro conjI)
qed


text \<open>
  C2, as stated, fails: a well-formed request for five guests at a table for two is
  answered 404 "Restaurant not found", not with the capacity error, when the table's
  restaurant is inactive.
\<close>

theorem createBooking_over_capacity_counterexample:
  "bookingValidation date_shape over_request = [] \<and>
   rt_id (restaurant_tables sample_db ! 2) = tableId over_request \<and>
   rt_restaurant_id (restaurant_tables sample_db ! 2) = restaurantId over_request \<and>
   rt_capacity (restaurant_tables sample_db ! 2) < guests over_request \<and>
   createBooking date_shape sample_db 3 7 over_request =
     (sample_db, reply 404 False ''Restaurant not found'' None)"
proof -
  have v: "bookingValidation date_shape over_request = []" by code_simp
  have "createBooking date_shape sample_db 3 7 over_request =
     (sample_db, reply 404 False ''Restaurant not found'' None)"
    unfolding createBooking_def v Let_def by (simp add: sample_db_def over_request_def)
  with v show ?thesis by (simp add: sample_db_def over_request_def)
qed


text \<open>
  C2, amended. Every request whose guest count exceeds the capacity of the table found
  for it is rejected with 400 or 404 and the store is returned unchanged: no booking row
  is inserted and no table status changes. When the request also passes validation and
  its restaurant is found active, the answer is the capacity error, 400 with the message
  naming the capacity and the guest count.
\<close>

theorem createBooking_over_capacity:
  assumes t: "find (\<lambda>t. rt_id t = tableId body \<and> rt_restaurant_id t = restaurantId body)
              (restaurant_tables db) = Some table"
    and g: "rt_capacity table < guests body"
  shows "fst (createBooking isISO8601 db newId userId body) = db \<and>
     \<not> success (snd (createBooking isISO8601 db newId userId body)) \<and>
     (status (snd (createBooking isISO8601 db newId userId body)) = 400 \<or>
      status (snd (createBooking isISO8601 db newId userId body)) = 404) \<and>
     (bookingValidation isISO8601 body = [] \<and>
      find (\<lambda>r. r_id r = restaurantId body \<and> r_is_active r = 1) (restaurants db) \<noteq> None \<longrightarrow>
        createBooking isISO8601 db newId userId body =
          (db, reply 400 False
                 (''Table capacity is '' @ showInt (rt_capacity table) @
                  '', but you requested '' @ showInt (guests body) @ '' guests'')
                 None))"
proof (cases "bookingValidation isISO8601 body = []")
  case False
  then have "createBooking isISO8601 db newId userId body =
      (db, \<lparr>status = 400, success = False, message = ''Validation failed'',
            data = None, errors = Some (bookingValidation isISO8601 body)\<rparr>)"
    unfolding createBooking_def Let_def by simp
  with False show ?thesis by simp
next
  case v: True
  show ?thesis
  proof (cases "find (\<lambda>r. r_id r = restaurantId body \<and> r_is_active r = 1) (restaurants db)")
    case None
    then have "createBooking isISO8601 db newId userId body =
        (db, reply 404 False ''Restaurant not found'' None)"
      unfolding createBooking_def v Let_def by simp
    with None show ?thesis by (simp add: reply_def)
  next
    case (Some restaurant)
    have "createBooking isISO8601 db newId userId body =
          (db, reply 400 False
                 (''Table capacity is '' @ showInt (rt_capacity table) @
                  '', but you requested '' @ showInt (guests body) @ '' guests'')
                 None)"
      unfolding createBooking_def v Some t Let_def using g by simp
    then show ?thesis by (simp add: reply_def)
  qed
qed

theorem createBooking_over_capacity_witness:
  "createBooking date_shape sample_db 3 7 (over_request\<lparr>restaurantId := 1, tableId := 2\<rparr>) =
     (sample_db, reply 400 False ''Table capacity is 2, but you requested 5 guests'' None)"
proof -
  let ?body = "over_request\<lparr>restaurantId := 1, tableId := 2\<rparr>"
  have v: "bookingValidation date_shape ?body = []" by code_simp
  have r: "find (\<lambda>r. r_id r = restaurantId ?body \<and> r_is_active r = 1) (restaurants sample_db) \<noteq> None"
    by (simp add: sample_db_def over_request_def)
  have t: "find (\<lambda>t. rt_id t = tableId ?body \<and> rt_restaurant_id t = restaurantId ?body)
              (restaurant_tables sample_db) = Some (restaurant_tables sample_db ! 1)"
    by (simp add: sample_db_def over_request_def)
  have g: "rt_capacity (restaurant_tables sample_db ! 1) < guests ?body"
    by (simp add: sample_db_def over_request_def)
  have m: "''Table capacity is '' @ showInt (rt_capacity (restaurant_tables sample_db ! 1)) @
                  '', but you requested '' @ showInt (guests ?body) @ '' guests''
           = ''Table capacity is 2, but you requested 5 guests''"
    by code_simp
  from createBooking_over_capacity [OF t g, of date_shape 3 7] v r
  have "createBooking date_shape sample_db 3 7 ?body =
          (sample_db, reply 400 False
                 (''Table capacity is '' @ showInt (rt_capacity (restaurant_tables sample_db ! 1)) @
                  '', but you requested '' @ showInt (guests ?body) @ '' guests'')
                 None)"
    by blast
  then show ?thesis unfolding m .
qed

section \<open>Failures in the notification panel\<close>

text \<open>
  C4, as stated, fails for the refresh: a panel that shows two notifications and an
  unread count of 1 shows no notification and a count of 0 after a refresh whose request
  is rejected; the last displayed state is not kept.
\<close>

theorem loadNotifications_failure_counterexample:
  "notificationsState sample_panel = [sample_item 1 0, sample_item 2 1] \<and>
   unreadCount sample_panel = 1 \<and>
   notificationsState (loadNotifications sample_panel Rejected) = [] \<and>
   unreadCount (loadNotifications sample_panel Rejected) = 0"
  by (simp add: sample_panel_def loadNotifications_def)


text \<open>
  C4, amended. When the call of mark-one-read or of mark-all-read is rejected, the panel
  is exactly the panel before the interaction: the snapshot of the notifications and of
  the unread count is restored whole. A refresh that finds a load in progress changes
  nothing. Any other refresh whose request is rejected, or resolves with null, with a
  response that is not successful or with a response without data, ends with an empty
  list, an unread count of 0 and the loading flags cleared.
\<close>

theorem panel_failure:
  "markAsRead st notificationId Rejected = st \<and>
   markAllAsRead st Rejected = st \<and>
   (loadingNotificationsRef st \<longrightarrow> loadNotifications st out = st) \<and>
   (\<not> loadingNotificationsRef st \<and>
    (out = Rejected \<or> out = Resolved None \<or>
     (\<exists>r. out = Resolved (Some r) \<and> (\<not> resp_success r \<or> resp_data r = None))) \<longrightarrow>
      loadNotifications st out =
        st\<lparr>notificationsState := [], unreadCount := 0, isLoading := False,
           loadingNotificationsRef := False\<rparr>)"
proof (intro conjI impI)
  show "markAsRead st notificationId Rejected = st"
    by (simp add: markAsRead_def)
  show "markAllAsRead st Rejected = st"
    by (simp add: markAllAsRead_def)
  show "loadNotifications st out = st" if "loadingNotificationsRef st"
    using that by (simp add: loadNotifications_def)
  show "loadNotifications st out =
        st\<lparr>notificationsState := [], unreadCount := 0, isLoading := False,
           loadingNotificationsRef := False\<rparr>"
    if h: "\<not> loadingNotificationsRef st \<and>
    (out = Rejected \<or> out = Resolved None \<or>
     (\<exists>r. out = Resolved (Some r) \<and> (\<not> resp_success r \<or> resp_data r = None)))"
  proof -
    from h have nl: "\<not> loadingNotificationsRef st" by (rule conjunct1)
    from h consider "out = Rejected" | "out = Resolved None"
      | r where "out = Resolved (Some r)" "\<not> resp_success r \<or> resp_data r = None"
      by blast
    then show ?thesis
    proof cases
      case 1
      with nl show ?thesis by (simp add: loadNotifications_def)
    next
      case 2
      with nl show ?thesis by (simp add: loadNotifications_def)
    next
      case 3
      show ?thesis
      proof (cases "resp_data r")
        case None
        with nl 3(1) show ?thesis by (simp add: loadNotifications_def)
      next
        case (Some d)
        with 3(2) have "\<not> resp_success r" by simp
        with nl 3(1) Some show ?thesis by (simp add: loadNotifications_def)
      qed
    qed
  qed
qed

theorem panel_failure_witness:
  "\<not> loadingNotificationsRef sample_panel \<and>
   loadNotifications sample_panel (Resolved (Some \<lparr>resp_success = False, resp_data = None\<rparr>)) =
     sample_panel\<lparr>notificationsState := [], unreadCount := 0, isLoading := False,
                  loadingNotificationsRef := False\<rparr> \<and>
   markAsRead sample_panel 1 (Rejected :: unit outcome) = sample_panel"
proof -
  let ?out = "Resolved (Some \<lparr>resp_success = False, resp_data = None\<rparr>)"
  have nl: "\<not> loadingNotificationsRef sample_panel" by (simp add: sample_panel_def)
  have o: "?out = Rejected \<or> ?out = Resolved None \<or>
     (\<exists>r. ?out = Resolved (Some r) \<and> (\<not> resp_success r \<or> resp_data r = None))"
    by simp
  note T = panel_failure [of sample_panel 1 ?out, where 'a = unit]
  from T have m: "markAsRead sample_panel 1 (Rejected :: unit outcome) = sample_panel"
    by (rule conjunct1)
  from T [THEN conjunct2, THEN conjunct2, THEN conjunct2] nl o
  have l: "loadNotifications sample_panel ?out =
     sample_panel\<lparr>notificationsState := [], unreadCount := 0, isLoading := False,
                  loadingNotificationsRef := False\<rparr>"
    by blast
  from nl l m show ?thesis by (intro conjI)
qed

end
